theory Spec2Isabelle
  imports Main
begin

section \<open>The HTTP client connection of \<open>src/src/http_connection.cpp\<close>\<close>

text \<open>
  The connection is a state machine driven by one event loop: every member function runs
  to completion, mutates the members of the object, and schedules asynchronous operations
  whose completion handlers are further member functions. The embedding is by explicit
  state passing. The record \<open>http_connection\<close> holds the members under their source
  names; every member function is a function from the state before to the state after.
  What a member function asks of the outside (invoking the response handler, posting a
  callback, starting an asynchronous operation, touching a timer or the socket) is
  appended to the field \<open>trace\<close>, in program order.

  The collaborators of the connection that are declared elsewhere (the URL parser, the
  HTTP response parser, gzip, base64, the resolver's shuffle, the socket layer) are not
  part of this file of the repository. They are parameters, gathered in the record
  \<open>env\<close>; the response parser's own state is the type parameter \<open>'p\<close>.

  Integers of type \<open>int\<close> in the source (\<open>m_read_pos\<close>, \<open>m_download_quota\<close>,
  \<open>m_next_ep\<close>, ...) and the 64-bit tick counts of \<open>time_point\<close> and
  \<open>time_duration\<close> are modelled by mathematical integers: signed overflow has no defined
  behaviour in C++, so the model speaks about the executions that stay in range. The
  16-bit member \<open>m_port\<close> wraps, and the wrap is written out (\<open>uint16\<close>).
\<close>

subsection \<open>Data\<close>

datatype errc =
    operation_aborted
  | eof
  | shut_down
  | timed_out
  | blocked_by_idna
  | unsupported_url_protocol
  | http_parse_error
  | http_missing_location
  | address_family_not_supported
  | file_too_large
  | other_error nat

text \<open>An \<open>error_code\<close> is either clear (\<open>None\<close>) or carries a code.\<close>

type_synonym error_code = "errc option"

datatype address = V4 nat | V6 nat

type_synonym endpoint = "address \<times> int"

fun is_v4 :: "address \<Rightarrow> bool" where
  "is_v4 (V4 _) = True"
| "is_v4 (V6 _) = False"

datatype proxy_type = none | socks4 | socks5 | socks5_pw | http | http_pw | i2p_proxy

record proxy_settings =
  ps_hostname :: string
  ps_port :: int
  ps_username :: string
  ps_password :: string
  ps_type :: proxy_type
  proxy_hostnames :: bool

definition null_proxy :: proxy_settings where
  "null_proxy = \<lparr>ps_hostname = [], ps_port = 0, ps_username = [], ps_password = [],
     ps_type = none, proxy_hostnames = True\<rparr>"

text \<open>
  The socket is visible to the connection through \<open>is_open\<close> only; the record also
  keeps what \<open>instantiate_connection\<close> was given.
\<close>

record socket =
  is_open :: bool
  sock_proxy :: proxy_settings
  sock_ssl :: bool

text \<open>What a member function asks of the outside, in program order.\<close>

datatype effect =
    Handler error_code string
  | Post_callback error_code
  | Connect_handler
  | Async_resolve string nat
  | Async_connect endpoint
  | Async_write string
  | Async_read_some int int
  | Async_shutdown
  | Timer_wait int
  | Timer_cancel
  | Limiter_wait int
  | Limiter_cancel
  | Sock_close
  | Set_dst_name string
  | Throw_length_error
  | Throw_bad_variant_access

record 'p http_connection =
  m_next_ep :: int
  m_endpoints :: "endpoint list"
  m_sock :: "socket option"
  m_handler :: bool
  m_connect_handler :: bool
  m_filter_handler :: "(endpoint list \<Rightarrow> endpoint list) option"
  m_hostname_filter_handler :: "(string \<Rightarrow> bool) option"
  m_timer :: "int option"
  m_completion_timeout :: int
  m_limiter_timer :: "int option"
  m_last_receive :: int
  m_start_time :: int
  m_read_pos :: int
  m_redirects :: int
  m_max_bottled_buffer_size :: int
  m_rate_limit :: int
  m_download_quota :: int
  m_priority :: int
  m_port :: int
  m_bottled :: bool
  m_called :: bool
  m_ssl :: bool
  m_abort :: bool
  m_connecting :: bool
  m_resolving_host :: bool
  m_limiter_timer_active :: bool
  m_hostname :: string
  m_url :: string
  m_sendbuffer :: string
  m_recvbuffer :: string
  m_user_agent :: string
  m_auth :: string
  m_parser :: 'p
  m_proxy :: proxy_settings
  m_bind_addr :: "address option"
  m_resolve_flags :: nat
  clock :: int
  trace :: "effect list"

record 'p env =
  use_ssl :: bool
  close_default_force :: bool
  parse_url_components :: "string \<Rightarrow> error_code \<times> string \<times> string \<times> string \<times> int \<times> string"
  base64encode :: "string \<Rightarrow> string"
  inflate_gzip :: "string \<Rightarrow> int \<Rightarrow> errc + string"
  resolve_redirect_location :: "string \<Rightarrow> string \<Rightarrow> string"
  is_redirect :: "int \<Rightarrow> bool"
  make_address :: "string \<Rightarrow> address option"
  random_shuffle :: "endpoint list \<Rightarrow> endpoint list"
  sock_bind :: "address \<Rightarrow> error_code"
  setup_ssl_hostname :: "bool \<Rightarrow> string \<Rightarrow> error_code"
  holds_socks5_stream :: "socket \<Rightarrow> bool \<Rightarrow> bool"
  reset :: "'p \<Rightarrow> 'p"
  incoming :: "'p \<Rightarrow> string \<Rightarrow> 'p \<times> bool"
  header_finished :: "'p \<Rightarrow> bool"
  finished :: "'p \<Rightarrow> bool"
  status_code :: "'p \<Rightarrow> int"
  header :: "'p \<Rightarrow> string \<Rightarrow> string"
  body_start :: "'p \<Rightarrow> int"
  get_body_size :: "'p \<Rightarrow> int"
  collapse_chunk_headers :: "'p \<Rightarrow> string \<Rightarrow> string"

subsection \<open>Small helpers\<close>

definition emit :: "effect \<Rightarrow> 'p http_connection \<Rightarrow> 'p http_connection" where
  "emit ef c = c\<lparr>trace := trace c @ [ef]\<rparr>"

text \<open>\<open>std::uint16_t(port)\<close>: the conversion of an \<open>int\<close> wraps modulo \<open>2^16\<close>.\<close>

definition uint16 :: "int \<Rightarrow> int" where
  "uint16 n = n mod 65536"

text \<open>\<open>std::size_t(n)\<close>: the conversion of an \<open>int\<close> wraps modulo \<open>2^64\<close>.\<close>

definition to_size_t :: "int \<Rightarrow> int" where
  "to_size_t n = n mod 18446744073709551616"

text \<open>Integer division of C++ truncates towards zero.\<close>

definition cpp_div :: "int \<Rightarrow> int \<Rightarrow> int" where
  "cpp_div a b = sgn a * sgn b * (\<bar>a\<bar> div \<bar>b\<bar>)"

text \<open>
  \<open>std::vector<char>::resize(n)\<close>: the first \<open>n\<close> elements are kept, new elements are
  value-initialised. The caller passes a non-negative \<open>n\<close>.
\<close>

definition resize :: "int \<Rightarrow> string \<Rightarrow> string" where
  "resize n buf = take (nat n) buf @ replicate (nat n - length buf) (CHR 0x00)"

text \<open>\<open>span(buf).first(n).subspan(k)\<close> and \<open>span(buf.data() + k, n)\<close>.\<close>

definition first_subspan :: "string \<Rightarrow> int \<Rightarrow> int \<Rightarrow> string" where
  "first_subspan buf n k = drop (nat k) (take (nat n) buf)"

definition span_at :: "string \<Rightarrow> int \<Rightarrow> int \<Rightarrow> string" where
  "span_at buf k n = take (nat n) (drop (nat k) buf)"

text \<open>\<open>operator<<(std::ostream&, int)\<close>: decimal digits, with a sign when negative.\<close>

definition digit_char :: "nat \<Rightarrow> char" where
  "digit_char d = char_of (48 + d)"

fun dec_nat :: "nat \<Rightarrow> string" where
  "dec_nat n = (if n < 10 then [digit_char n] else dec_nat (n div 10) @ [digit_char (n mod 10)])"

declare dec_nat.simps [simp del]

definition dec_int :: "int \<Rightarrow> string" where
  "dec_int i = (if i < 0 then CHR ''-'' # dec_nat (nat (- i)) else dec_nat (nat i))"

definition sock_is_open :: "'p http_connection \<Rightarrow> bool" where
  "sock_is_open c = (case m_sock c of None \<Rightarrow> False | Some s \<Rightarrow> is_open s)"

text \<open>\<open>m_sock->close(ec)\<close>.\<close>

definition sock_close :: "'p http_connection \<Rightarrow> 'p http_connection" where
  "sock_close c =
     emit Sock_close (c\<lparr>m_sock := map_option (\<lambda>s. s\<lparr>is_open := False\<rparr>) (m_sock c)\<rparr>)"

text \<open>\<open>m_timer.cancel()\<close> and \<open>m_limiter_timer.cancel()\<close>.\<close>

definition timer_cancel :: "'p http_connection \<Rightarrow> 'p http_connection" where
  "timer_cancel c = emit Timer_cancel (c\<lparr>m_timer := None\<rparr>)"

definition limiter_cancel :: "'p http_connection \<Rightarrow> 'p http_connection" where
  "limiter_cancel c = emit Limiter_cancel (c\<lparr>m_limiter_timer := None\<rparr>)"

text \<open>
  \<open>m_timer.expires_at(t); m_timer.async_wait(on_timeout)\<close>. The field \<open>m_timer\<close> holds
  the expiry of the wait that is pending, if one is.
\<close>

definition timer_wait_at :: "int \<Rightarrow> 'p http_connection \<Rightarrow> 'p http_connection" where
  "timer_wait_at t c = emit (Timer_wait t) (c\<lparr>m_timer := Some t\<rparr>)"

definition limiter_wait_at :: "int \<Rightarrow> 'p http_connection \<Rightarrow> 'p http_connection" where
  "limiter_wait_at t c = emit (Limiter_wait t) (c\<lparr>m_limiter_timer := Some t\<rparr>)"

text \<open>\<open>post(m_ios, std::bind(&http_connection::callback, me, ec, span<char>{}))\<close>.\<close>

definition post_callback :: "error_code \<Rightarrow> 'p http_connection \<Rightarrow> 'p http_connection" where
  "post_callback ec c = emit (Post_callback ec) c"

text \<open>
  \<open>m_sock->async_connect(target, ...)\<close>: asio opens a socket that is not open yet when a
  connect is started on it.
\<close>

definition async_connect :: "endpoint \<Rightarrow> 'p http_connection \<Rightarrow> 'p http_connection" where
  "async_connect ep c =
     emit (Async_connect ep) (c\<lparr>m_sock := map_option (\<lambda>s. s\<lparr>is_open := True\<rparr>) (m_sock c)\<rparr>)"

text \<open>Durations are counted in nanoseconds, the tick of the clock.\<close>

definition seconds :: "int \<Rightarrow> int" where
  "seconds n = n * 1000000000"

definition milliseconds :: "int \<Rightarrow> int" where
  "milliseconds n = n * 1000000"

subsection \<open>The constructor\<close>

definition http_connection_init ::
  "'p \<Rightarrow> int \<Rightarrow> bool \<Rightarrow> bool \<Rightarrow> int \<Rightarrow> bool \<Rightarrow> (endpoint list \<Rightarrow> endpoint list) option
     \<Rightarrow> (string \<Rightarrow> bool) option \<Rightarrow> 'p http_connection" where
  "http_connection_init parser0 now handler bottled max_bottled_buffer_size ch fh hfh =
     \<lparr>m_next_ep = 0, m_endpoints = [], m_sock = None, m_handler = handler,
      m_connect_handler = ch, m_filter_handler = fh, m_hostname_filter_handler = hfh,
      m_timer = None, m_completion_timeout = seconds 5, m_limiter_timer = None,
      m_last_receive = now, m_start_time = now, m_read_pos = 0, m_redirects = 5,
      m_max_bottled_buffer_size = max_bottled_buffer_size, m_rate_limit = 0,
      m_download_quota = 0, m_priority = 0, m_port = 0, m_bottled = bottled,
      m_called = False, m_ssl = False, m_abort = False, m_connecting = False,
      m_resolving_host = False, m_limiter_timer_active = False, m_hostname = [],
      m_url = [], m_sendbuffer = [], m_recvbuffer = [], m_user_agent = [], m_auth = [],
      m_parser = parser0, m_proxy = null_proxy, m_bind_addr = None, m_resolve_flags = 0,
      clock = now, trace = []\<rparr>"

subsection \<open>\<open>callback\<close> and \<open>close\<close>\<close>

text \<open>
  \<open>if (m_handler) m_handler(e, m_parser, data, *this)\<close>. The handler is the caller's
  code; the model records that it ran and what it was given. What the handler then does
  with the connection (\<open>close\<close>, another \<open>get\<close>) is a call of its own.
\<close>

definition invoke_handler ::
  "error_code \<Rightarrow> string \<Rightarrow> 'p http_connection \<Rightarrow> 'p http_connection" where
  "invoke_handler e data c = (if m_handler c then emit (Handler e data) c else c)"

text \<open>The common tail of \<open>callback\<close> (lines 535 to 537).\<close>

definition deliver ::
  "error_code \<Rightarrow> string \<Rightarrow> 'p http_connection \<Rightarrow> 'p http_connection" where
  "deliver e data c = invoke_handler e data (timer_cancel (c\<lparr>m_called := True\<rparr>))"

definition callback ::
  "'p env \<Rightarrow> 'p http_connection \<Rightarrow> error_code \<Rightarrow> string \<Rightarrow> 'p http_connection" where
  "callback env c e data =
     (if m_bottled c \<and> m_called c then c
      else if data \<noteq> [] \<and> m_bottled c \<and> header_finished env (m_parser c) then
        (let collapsed = collapse_chunk_headers env (m_parser c) data;
             encoding = header env (m_parser c) ''content-encoding'';
             e' = (if finished env (m_parser c) then None else e)
         in if encoding = ''gzip'' \<or> encoding = ''x-gzip'' then
              (case inflate_gzip env collapsed (m_max_bottled_buffer_size c) of
                 Inl ec \<Rightarrow> invoke_handler (Some ec) collapsed c
               | Inr buf \<Rightarrow> deliver e' buf c)
            else deliver e' collapsed c)
      else deliver e data c)"

definition close :: "bool \<Rightarrow> 'p http_connection \<Rightarrow> 'p http_connection" where
  "close force c =
     (if m_abort c then c
      else
        (let c1 = (case m_sock c of
                     Some s \<Rightarrow> (if force then timer_cancel (sock_close c)
                                else emit Async_shutdown c)
                   | None \<Rightarrow> timer_cancel c);
             c2 = limiter_cancel c1
         in c2\<lparr>m_hostname := [], m_port := 0, m_handler := False, m_abort := True\<rparr>))"

subsection \<open>\<open>connect\<close>, \<open>start\<close> and \<open>get\<close>\<close>

definition socks5_hostnames :: "proxy_settings \<Rightarrow> bool" where
  "socks5_hostnames p = (proxy_hostnames p \<and> (ps_type p = socks5 \<or> ps_type p = socks5_pw))"

definition http_proxy :: "proxy_settings \<Rightarrow> bool" where
  "http_proxy p = (ps_type p = http \<or> ps_type p = http_pw)"

text \<open>
  \<open>m_endpoints[0].address(adr)\<close> rewrites the address of the first endpoint; the list is
  never empty where the source does this (it asserts \<open>m_next_ep < m_endpoints.size()\<close>
  first), and the model leaves an empty list alone.
\<close>

definition set_first_address :: "address \<Rightarrow> endpoint list \<Rightarrow> endpoint list" where
  "set_first_address adr eps = (case eps of [] \<Rightarrow> [] | ep # rest \<Rightarrow> (adr, snd ep) # rest)"

text \<open>
  Lines 446 to 456 reach into the socket with \<open>std::get<socks5_stream>\<close> (or, for TLS,
  \<open>std::get<ssl_stream<socks5_stream>>\<close>), which throws \<open>std::bad_variant_access\<close> when
  the socket was made as another alternative; \<open>holds_socks5_stream s ssl\<close> says whether
  \<open>instantiate_connection\<close> made \<open>s\<close> as that alternative. The exception leaves \<open>connect\<close>
  and its caller.
\<close>

definition connect_throws :: "'p env \<Rightarrow> 'p http_connection \<Rightarrow> bool" where
  "connect_throws env c =
     (socks5_hostnames (m_proxy c) \<and> make_address env (m_hostname c) = None
      \<and> (case m_sock c of
            None \<Rightarrow> True
          | Some s \<Rightarrow> \<not> holds_socks5_stream env s (use_ssl env \<and> m_ssl c)))"

definition connect :: "'p env \<Rightarrow> 'p http_connection \<Rightarrow> 'p http_connection" where
  "connect env c =
     (if connect_throws env c then emit Throw_bad_variant_access c
      else
     (let c1 = (if socks5_hostnames (m_proxy c) then
                  (case make_address env (m_hostname c) of
                     None \<Rightarrow> emit (Set_dst_name (m_hostname c)) c
                   | Some adr \<Rightarrow> c\<lparr>m_endpoints := set_first_address adr (m_endpoints c)\<rparr>)
                else c)
      in if m_next_ep c1 \<ge> int (length (m_endpoints c1)) then c1
         else async_connect (m_endpoints c1 ! nat (m_next_ep c1))
                (c1\<lparr>m_next_ep := m_next_ep c1 + 1, m_connecting := True\<rparr>)))"

text \<open>Lines 274 to 303 of \<open>start\<close>: the TLS host name, the endpoint list, resolve or connect.\<close>

definition start_resolve ::
  "'p env \<Rightarrow> 'p http_connection \<Rightarrow> string \<Rightarrow> int \<Rightarrow> proxy_settings option \<Rightarrow> bool
     \<Rightarrow> 'p http_connection" where
  "start_resolve env c hostname port ps ssl =
     (let ec = setup_ssl_hostname env ssl hostname
      in if ec \<noteq> None then post_callback ec c
         else
           (let c1 = c\<lparr>m_endpoints := [], m_next_ep := 0, m_hostname := hostname\<rparr>;
                c2 = (if (case ps of None \<Rightarrow> False | Some p \<Rightarrow> socks5_hostnames p) then
                        connect env (c1\<lparr>m_port := uint16 port,
                                        m_endpoints := m_endpoints c1 @ [(V4 0, uint16 port)]\<rparr>)
                      else emit (Async_resolve hostname (m_resolve_flags c1))
                             (c1\<lparr>m_resolving_host := True\<rparr>))
            in c2\<lparr>m_port := uint16 port\<rparr>))"

definition start ::
  "'p env \<Rightarrow> 'p http_connection \<Rightarrow> string \<Rightarrow> int \<Rightarrow> int \<Rightarrow> int \<Rightarrow> proxy_settings option
     \<Rightarrow> bool \<Rightarrow> int \<Rightarrow> address option \<Rightarrow> nat \<Rightarrow> 'p http_connection" where
  "start env c hostname port timeout prio ps ssl handle_redirects bind_addr resolve_flags =
     (let c1 = c\<lparr>m_redirects := handle_redirects, m_resolve_flags := resolve_flags,
                 m_proxy := (case ps of None \<Rightarrow> m_proxy c | Some p \<Rightarrow> p)\<rparr>;
          c2 = timer_wait_at (clock c1 + timeout) (c1\<lparr>m_completion_timeout := timeout\<rparr>);
          c3 = c2\<lparr>m_called := False, m_parser := reset env (m_parser c2), m_recvbuffer := [],
                  m_read_pos := 0, m_priority := prio\<rparr>
      in if sock_is_open c3 \<and> m_hostname c3 = hostname \<and> m_port c3 = port
            \<and> m_ssl c3 = ssl \<and> m_bind_addr c3 = bind_addr
         then emit (Async_write (m_sendbuffer c3)) c3
         else
           (let c4 = c3\<lparr>m_ssl := ssl, m_bind_addr := bind_addr\<rparr>;
                c5 = (if sock_is_open c4 then sock_close c4 else c4);
                proxy = (case ps of
                           None \<Rightarrow> null_proxy
                         | Some p \<Rightarrow> if http_proxy p \<and> \<not> ssl then null_proxy else p);
                c6 = c5\<lparr>m_sock := Some \<lparr>is_open = False, sock_proxy = proxy,
                                          sock_ssl = (use_ssl env \<and> ssl)\<rparr>\<rparr>
            in case bind_addr of
                 None \<Rightarrow> start_resolve env c6 hostname port ps ssl
               | Some b \<Rightarrow>
                   (let c7 = c6\<lparr>m_sock := map_option (\<lambda>s. s\<lparr>is_open := True\<rparr>) (m_sock c6)\<rparr>;
                        ec = sock_bind env b
                    in if ec \<noteq> None then post_callback ec c7
                       else start_resolve env c7 hostname port ps ssl)))"

text \<open>
  The request text of \<open>get\<close> (lines 139 to 179), written to the \<open>std::stringstream\<close> piece
  by piece as the source does.
\<close>

definition crlf :: string where
  "crlf = [CHR 0x0D, CHR 0x0A]"

definition build_request ::
  "'p env \<Rightarrow> bool \<Rightarrow> string \<Rightarrow> proxy_settings option \<Rightarrow> bool \<Rightarrow> string \<Rightarrow> string \<Rightarrow> int
     \<Rightarrow> int \<Rightarrow> string \<Rightarrow> string \<Rightarrow> string" where
  "build_request env bottled url ps ssl hostname path port default_port user_agent auth =
     (let r1 = (case ps of
                  None \<Rightarrow> None
                | Some p \<Rightarrow>
                    if http_proxy p \<and> \<not> ssl then
                      Some (''GET '' @ url @ '' HTTP/1.1'' @ crlf
                        @ (if ps_type p = http_pw then
                             ''Proxy-Authorization: Basic ''
                               @ base64encode env (ps_username p @ '':'' @ ps_password p) @ crlf
                           else [])
                        @ ''Host: '' @ hostname
                        @ (if port \<noteq> default_port then '':'' @ dec_int port @ crlf else crlf))
                    else None);
          r2 = (case r1 of
                  Some r \<Rightarrow> r
                | None \<Rightarrow>
                    ''GET '' @ path @ '' HTTP/1.1'' @ crlf @ ''Host: '' @ hostname
                      @ (if port \<noteq> default_port then '':'' @ dec_int port @ crlf else crlf));
          r3 = (if user_agent \<noteq> [] then r2 @ ''User-Agent: '' @ user_agent @ crlf else r2);
          r4 = (if bottled then r3 @ ''Accept-Encoding: gzip'' @ crlf else r3);
          r5 = (if auth \<noteq> [] then r4 @ ''Authorization: Basic '' @ base64encode env auth @ crlf
                else r4)
      in r5 @ ''Connection: close'' @ crlf @ crlf)"

definition get ::
  "'p env \<Rightarrow> 'p http_connection \<Rightarrow> string \<Rightarrow> int \<Rightarrow> int \<Rightarrow> proxy_settings option \<Rightarrow> int
     \<Rightarrow> string \<Rightarrow> address option \<Rightarrow> nat \<Rightarrow> string \<Rightarrow> 'p http_connection" where
  "get env c url timeout prio ps handle_redirects user_agent bind_addr resolve_flags auth_arg =
     (case parse_url_components env url of (ec, protocol, url_auth, hostname, url_port, path) \<Rightarrow>
        (let auth = (if url_auth = [] then auth_arg else url_auth);
             c1 = c\<lparr>m_user_agent := user_agent, m_resolve_flags := resolve_flags, m_auth := auth\<rparr>;
             default_port = (if protocol = ''https'' then 443 else 80);
             port = (if url_port = - 1 then default_port else url_port)
         in if ec \<noteq> None then post_callback ec c1
            else if (case m_hostname_filter_handler c1 of
                       None \<Rightarrow> False
                     | Some hostname_filter \<Rightarrow> \<not> hostname_filter hostname)
              then post_callback (Some blocked_by_idna) c1
            else if protocol \<noteq> ''http'' \<and> (if use_ssl env then protocol \<noteq> ''https'' else True)
              then post_callback (Some unsupported_url_protocol) c1
            else
              (let ssl = (protocol = ''https'');
                   request = build_request env (m_bottled c1) url ps ssl hostname path port
                               default_port (m_user_agent c1) auth;
                   target = (case ps of
                               None \<Rightarrow> (hostname, port)
                             | Some p \<Rightarrow> if http_proxy p \<and> \<not> ssl then (ps_hostname p, ps_port p)
                                         else (hostname, port));
                   c2 = c1\<lparr>m_sendbuffer := request, m_url := url\<rparr>
               in start env c2 (fst target) (snd target) timeout prio ps ssl handle_redirects
                    bind_addr (m_resolve_flags c2))))"

subsection \<open>The completion handlers\<close>

text \<open>
  \<open>on_timeout\<close> is a static member that takes a weak handle; the model covers the case
  where the object is still alive. \<open>clock_type::now()\<close> reads the field \<open>clock\<close>.
\<close>

definition deadline :: "'p http_connection \<Rightarrow> int" where
  "deadline c = m_start_time c + m_completion_timeout c * ((if m_resolving_host c then 1 else 0) + 1)"

definition on_timeout :: "'p env \<Rightarrow> 'p http_connection \<Rightarrow> error_code \<Rightarrow> 'p http_connection" where
  "on_timeout env c e =
     (if e = Some operation_aborted then c
      else if m_abort c then c
      else
        (let now = clock c
         in if deadline c \<le> now then
              (if m_next_ep c < int (length (m_endpoints c)) then
                 (let c1 = sock_close c
                  in if \<not> m_connecting c1 \<and> connect_throws env c1 then connect env c1
                     else
                       (let c2 = (if \<not> m_connecting c1 then connect env c1 else c1);
                            c3 = c2\<lparr>m_last_receive := now, m_start_time := now\<rparr>
                        in timer_wait_at (m_start_time c3 + m_completion_timeout c3) c3))
               else callback env (sock_close c) (Some timed_out) [])
            else timer_wait_at (m_start_time c + m_completion_timeout c) c))"

definition on_resolve ::
  "'p env \<Rightarrow> 'p http_connection \<Rightarrow> error_code \<Rightarrow> address list \<Rightarrow> 'p http_connection" where
  "on_resolve env c e addresses =
     (let c1 = c\<lparr>m_resolving_host := False\<rparr>
      in if e \<noteq> None then callback env c1 e []
         else
           (let c2 = c1\<lparr>m_start_time := clock c1,
                       m_endpoints := m_endpoints c1 @ map (\<lambda>addr. (addr, m_port c1)) addresses\<rparr>;
                c3 = (case m_filter_handler c2 of
                        None \<Rightarrow> c2
                      | Some endpoint_filter \<Rightarrow> c2\<lparr>m_endpoints := endpoint_filter (m_endpoints c2)\<rparr>)
            in if m_endpoints c3 = [] then close (close_default_force env) c3
               else
                 (let c4 = c3\<lparr>m_endpoints := random_shuffle env (m_endpoints c3)\<rparr>
                  in case m_bind_addr c4 of
                       None \<Rightarrow> connect env c4
                     | Some b \<Rightarrow>
                         (let c5 = c4\<lparr>m_endpoints :=
                                       filter (\<lambda>ep. is_v4 (fst ep) = is_v4 b) (m_endpoints c4)\<rparr>
                          in if m_endpoints c5 = [] then
                               close (close_default_force env)
                                 (callback env c5 (Some address_family_not_supported) [])
                             else connect env c5))))"

definition on_connect :: "'p env \<Rightarrow> 'p http_connection \<Rightarrow> error_code \<Rightarrow> 'p http_connection" where
  "on_connect env c e =
     (let c1 = c\<lparr>m_connecting := False, m_last_receive := clock c, m_start_time := clock c\<rparr>
      in if e = None then
           emit (Async_write (m_sendbuffer c1))
             (if m_connect_handler c1 then emit Connect_handler c1 else c1)
         else if m_next_ep c1 < int (length (m_endpoints c1)) \<and> \<not> m_abort c1 then
           connect env (sock_close c1)
         else callback env (sock_close c1) e [])"

definition on_assign_bandwidth ::
  "'p env \<Rightarrow> 'p http_connection \<Rightarrow> error_code \<Rightarrow> 'p http_connection" where
  "on_assign_bandwidth env c e =
     (if (e = Some operation_aborted \<and> m_limiter_timer_active c) \<or> \<not> sock_is_open c then
        callback env c (Some eof) []
      else
        (let c1 = c\<lparr>m_limiter_timer_active := False\<rparr>
         in if e \<noteq> None then c1
            else if m_abort c1 then c1
            else if m_download_quota c1 > 0 then c1
            else
              (let c2 = c1\<lparr>m_download_quota := cpp_div (m_rate_limit c1) 4\<rparr>;
                   room = int (length (m_recvbuffer c2)) - m_read_pos c2;
                   amount_to_read = (if room > m_download_quota c2 then m_download_quota c2 else room)
               in if \<not> sock_is_open c2 then c2
                  else
                    limiter_wait_at (clock c2 + milliseconds 250)
                      ((emit (Async_read_some (m_read_pos c2) (to_size_t amount_to_read)) c2)
                         \<lparr>m_limiter_timer_active := True\<rparr>))))"

text \<open>
  The last lines of \<open>on_write\<close> (557 to 575) and of \<open>on_read\<close> (706 to 724) are the same
  text: the amount to read, cut to the quota when a rate limit is set, and the next read.
\<close>

definition issue_read :: "'p env \<Rightarrow> 'p http_connection \<Rightarrow> 'p http_connection" where
  "issue_read env c =
     (let amount_to_read = int (length (m_recvbuffer c)) - m_read_pos c
      in if m_rate_limit c > 0 \<and> amount_to_read > m_download_quota c then
           (if m_download_quota c = 0 then
              (if \<not> m_limiter_timer_active c then on_assign_bandwidth env c None else c)
            else emit (Async_read_some (m_read_pos c) (to_size_t (m_download_quota c))) c)
         else emit (Async_read_some (m_read_pos c) (to_size_t amount_to_read)) c)"

definition on_write :: "'p env \<Rightarrow> 'p http_connection \<Rightarrow> error_code \<Rightarrow> 'p http_connection" where
  "on_write env c e =
     (if e = Some operation_aborted then c
      else if e \<noteq> None then callback env c e []
      else if m_abort c then c
      else issue_read env (c\<lparr>m_sendbuffer := [], m_recvbuffer := resize 4096 (m_recvbuffer c)\<rparr>))"

text \<open>
  Lines 695 to 724 of \<open>on_read\<close>: the grow policy, the size limit, the next read. A
  negative size handed to \<open>resize\<close> converts to a huge \<open>std::size_t\<close>, and \<open>resize\<close>
  throws.
\<close>

definition on_read_tail :: "'p env \<Rightarrow> 'p http_connection \<Rightarrow> 'p http_connection" where
  "on_read_tail env c =
     (let new_size = min (m_read_pos c * 2) (m_max_bottled_buffer_size c);
          full = (int (length (m_recvbuffer c)) = m_read_pos c)
      in if full \<and> new_size < 0 then emit Throw_length_error c
         else
           (let c1 = (if full then c\<lparr>m_recvbuffer := resize new_size (m_recvbuffer c)\<rparr> else c)
            in if m_read_pos c1 = m_max_bottled_buffer_size c1 then
                 callback env c1 (Some file_too_large) []
               else issue_read env c1))"

text \<open>The condition under which \<open>on_read\<close> takes the redirect branch (lines 637 to 641).\<close>

definition redirecting :: "'p env \<Rightarrow> 'p http_connection \<Rightarrow> bool" where
  "redirecting env c =
     (m_redirects c \<noteq> 0 \<and> header_finished env (m_parser c)
        \<and> is_redirect env (status_code env (m_parser c)))"

text \<open>
  \<open>on_read\<close> is long; the model names its parts. Lines 583 to 587: the quota is charged
  (\<open>int(bytes_transferred)\<close> is the argument).
\<close>

definition charge_quota :: "int \<Rightarrow> 'p http_connection \<Rightarrow> 'p http_connection" where
  "charge_quota bytes_transferred c =
     (if m_rate_limit c \<noteq> 0 then c\<lparr>m_download_quota := m_download_quota c - bytes_transferred\<rparr>
      else c)"

text \<open>Lines 643 to 662: the redirect.\<close>

definition on_read_redirect :: "'p env \<Rightarrow> 'p http_connection \<Rightarrow> 'p http_connection" where
  "on_read_redirect env c =
     (let location = header env (m_parser c) ''location''
      in if location = [] then callback env c (Some http_missing_location) []
         else
           get env (sock_close c) (resolve_redirect_location env (m_url c) location)
             (m_completion_timeout c) (m_priority c) (Some (m_proxy c)) (m_redirects c - 1)
             (m_user_agent c) (m_bind_addr c) (m_resolve_flags c) (m_auth c))"

text \<open>Lines 668 to 685: what is handed to the caller once the bytes are parsed.\<close>

definition on_read_deliver :: "'p env \<Rightarrow> 'p http_connection \<Rightarrow> 'p http_connection" where
  "on_read_deliver env c =
     (if \<not> m_bottled c \<and> header_finished env (m_parser c) then
        (let c' = (if m_read_pos c > body_start env (m_parser c) then
                     callback env c None
                       (first_subspan (m_recvbuffer c) (m_read_pos c) (body_start env (m_parser c)))
                   else c)
         in c'\<lparr>m_read_pos := 0, m_last_receive := clock c'\<rparr>)
      else if m_bottled c \<and> finished env (m_parser c) then
        callback env (timer_cancel c) None
          (first_subspan (m_recvbuffer c) (m_read_pos c) (body_start env (m_parser c)))
      else c)"

text \<open>Lines 636 to 686, after the parser has accepted the bytes.\<close>

definition on_read_parsed :: "'p env \<Rightarrow> 'p http_connection \<Rightarrow> 'p http_connection" where
  "on_read_parsed env c =
     (if redirecting env c then on_read_redirect env c
      else
        on_read_tail env
          (on_read_deliver env
             (if m_redirects c \<noteq> 0 \<and> header_finished env (m_parser c) then c\<lparr>m_redirects := 0\<rparr>
              else c)))"

definition on_read ::
  "'p env \<Rightarrow> 'p http_connection \<Rightarrow> error_code \<Rightarrow> int \<Rightarrow> 'p http_connection" where
  "on_read env c e bytes_transferred =
     (let c1 = charge_quota bytes_transferred c
      in if e = Some operation_aborted then c1
         else if m_abort c1 then c1
         else if e = Some eof \<or> e = Some shut_down then
           callback env c1 (Some eof)
             (if m_bottled c1 \<and> header_finished env (m_parser c1) then
                span_at (m_recvbuffer c1) (body_start env (m_parser c1))
                  (get_body_size env (m_parser c1))
              else [])
         else if e \<noteq> None then callback env c1 e []
         else
           (let c2 = c1\<lparr>m_read_pos := m_read_pos c1 + bytes_transferred\<rparr>
            in if m_bottled c2 \<or> \<not> header_finished env (m_parser c2) then
                 (case incoming env (m_parser c2) (take (nat (m_read_pos c2)) (m_recvbuffer c2)) of
                    (parser', error) \<Rightarrow>
                      (let c3 = c2\<lparr>m_parser := parser'\<rparr>
                       in if error then callback env c3 (Some http_parse_error) []
                          else on_read_parsed env c3))
               else
                 on_read_tail env
                   ((callback env c2 None (take (nat (m_read_pos c2)) (m_recvbuffer c2)))
                      \<lparr>m_read_pos := 0, m_last_receive := clock c2\<rparr>)))"

definition rate_limit :: "int \<Rightarrow> 'p http_connection \<Rightarrow> 'p http_connection" where
  "rate_limit limit c =
     (if \<not> sock_is_open c then c
      else
        (let c1 = (if \<not> m_limiter_timer_active c then
                     limiter_wait_at (clock c + milliseconds 250)
                       (c\<lparr>m_limiter_timer_active := True\<rparr>)
                   else c)
         in c1\<lparr>m_rate_limit := limit\<rparr>))"

subsection \<open>The event loop\<close>

text \<open>
  What reaches the connection: calls of the owner (\<open>get\<close>, \<open>start\<close>, \<open>close\<close>,
  \<open>rate_limit\<close>), a posted callback that the loop runs, and the completions of the
  asynchronous operations. \<open>Tick\<close> lets time pass. A completed read has put its bytes
  into the receive buffer at \<open>m_read_pos\<close> before \<open>on_read\<close> runs.
\<close>

datatype input =
    Tick int
  | Call_get string int int "proxy_settings option" int string "address option" nat string
  | Call_start string int int int "proxy_settings option" bool int "address option" nat
  | Call_close bool
  | Call_rate_limit int
  | Run_posted error_code
  | Resolved error_code "address list"
  | Connected error_code
  | Written error_code
  | Read_done error_code string
  | Timer_fired error_code
  | Limiter_fired error_code

definition socket_write :: "string \<Rightarrow> 'p http_connection \<Rightarrow> 'p http_connection" where
  "socket_write data c =
     c\<lparr>m_recvbuffer := take (nat (m_read_pos c)) (m_recvbuffer c) @ data
          @ drop (nat (m_read_pos c) + length data) (m_recvbuffer c)\<rparr>"

fun step :: "'p env \<Rightarrow> 'p http_connection \<Rightarrow> input \<Rightarrow> 'p http_connection" where
  "step env c (Tick t) = c\<lparr>clock := max (clock c) t\<rparr>"
| "step env c (Call_get url timeout prio ps redirects ua bind_addr flags auth) =
     get env c url timeout prio ps redirects ua bind_addr flags auth"
| "step env c (Call_start hostname port timeout prio ps ssl redirects bind_addr flags) =
     start env c hostname port timeout prio ps ssl redirects bind_addr flags"
| "step env c (Call_close force) = close force c"
| "step env c (Call_rate_limit limit) = rate_limit limit c"
| "step env c (Run_posted ec) = callback env c ec []"
| "step env c (Resolved e addresses) = on_resolve env c e addresses"
| "step env c (Connected e) = on_connect env c e"
| "step env c (Written e) = on_write env c e"
| "step env c (Read_done e data) = on_read env (socket_write data c) e (int (length data))"
| "step env c (Timer_fired e) = on_timeout env (if e = None then c\<lparr>m_timer := None\<rparr> else c) e"
| "step env c (Limiter_fired e) =
     on_assign_bandwidth env (if e = None then c\<lparr>m_limiter_timer := None\<rparr> else c) e"

definition run :: "'p env \<Rightarrow> 'p http_connection \<Rightarrow> input list \<Rightarrow> 'p http_connection" where
  "run env c inputs = foldl (step env) c inputs"

text \<open>
  The discipline of the loop that the endpoint bookkeeping relies on: one name lookup
  is in flight at a time. The resolver completes a lookup that \<open>start\<close> has issued
  (\<open>m_resolving_host\<close>); the owner does not start a request while a lookup is in flight;
  and as \<open>start\<close> has closed the previous socket before it issues the lookup, a read
  that completes during the lookup completes as aborted.
\<close>

fun enabled :: "'p http_connection \<Rightarrow> input \<Rightarrow> bool" where
  "enabled c (Call_get url timeout prio ps redirects ua bind_addr flags auth) =
     (\<not> m_resolving_host c)"
| "enabled c (Call_start hostname port timeout prio ps ssl redirects bind_addr flags) =
     (\<not> m_resolving_host c)"
| "enabled c (Resolved e addresses) = m_resolving_host c"
| "enabled c (Read_done e data) = (if m_resolving_host c then e = Some operation_aborted else True)"
| "enabled c _ = True"

inductive reachable :: "'p env \<Rightarrow> 'p http_connection \<Rightarrow> bool" for env :: "'p env" where
  constructed:
    "reachable env (http_connection_init parser0 now handler bottled max_size ch fh hfh)"
| stepped:
    "reachable env c \<Longrightarrow> enabled c i \<Longrightarrow> reachable env (step env c i)"

subsection \<open>Reading the trace\<close>

fun handler_calls :: "effect list \<Rightarrow> (error_code \<times> string) list" where
  "handler_calls [] = []"
| "handler_calls (Handler e data # efs) = (e, data) # handler_calls efs"
| "handler_calls (_ # efs) = handler_calls efs"

fun connect_attempts :: "effect list \<Rightarrow> nat" where
  "connect_attempts [] = 0"
| "connect_attempts (Async_connect ep # efs) = Suc (connect_attempts efs)"
| "connect_attempts (_ # efs) = connect_attempts efs"

fun reads_issued :: "effect list \<Rightarrow> nat" where
  "reads_issued [] = 0"
| "reads_issued (Async_read_some pos amount # efs) = Suc (reads_issued efs)"
| "reads_issued (_ # efs) = reads_issued efs"

lemma handler_calls_append [simp]:
  "handler_calls (xs @ ys) = handler_calls xs @ handler_calls ys"
  by (induction xs rule: handler_calls.induct) simp_all

lemma connect_attempts_append [simp]:
  "connect_attempts (xs @ ys) = connect_attempts xs + connect_attempts ys"
  by (induction xs rule: connect_attempts.induct) simp_all

lemma reads_issued_append [simp]:
  "reads_issued (xs @ ys) = reads_issued xs + reads_issued ys"
  by (induction xs rule: reads_issued.induct) simp_all

subsection \<open>A small environment to run the connection in\<close>

text \<open>
  The theorems below hold for every environment. To evaluate the connection on concrete
  inputs an environment is fixed here. Its response parser keeps the bytes it was fed;
  the first byte of a response stands for the header block (\<open>R\<close>: a 302 with a
  \<open>Location\<close>, \<open>M\<close>: a 301 without one, \<open>G\<close>: a 200 with \<open>Content-Encoding: gzip\<close>, any
  other byte: a plain 200), the body starts at offset 1 and is complete after three
  bytes. Its inflater accepts one input only, its URL parser knows three URLs.
\<close>

definition demo_parse_url :: "string \<Rightarrow> error_code \<times> string \<times> string \<times> string \<times> int \<times> string" where
  "demo_parse_url url =
     (if url = ''http://example.org/a'' then (None, ''http'', [], ''example.org'', - 1, ''/a'')
      else if url = ''https://u:pw@example.org:8443/b'' then
        (None, ''https'', ''u:pw'', ''example.org'', 8443, ''/b'')
      else if url = ''ftp://example.org/c'' then (None, ''ftp'', [], ''example.org'', - 1, ''/c'')
      else (Some (other_error 1), [], [], [], - 1, []))"

definition demo_header :: "string \<Rightarrow> string \<Rightarrow> string" where
  "demo_header p name =
     (if name = ''content-encoding'' \<and> take 1 p = ''G'' then ''gzip''
      else if name = ''location'' \<and> take 1 p = ''R'' then ''http://example.org/a''
      else [])"

definition demo_env :: "string env" where
  "demo_env =
     \<lparr>use_ssl = True,
      close_default_force = False,
      parse_url_components = demo_parse_url,
      base64encode = (\<lambda>s. ''b64:'' @ s),
      inflate_gzip = (\<lambda>data limit. if data = ''zip'' then Inr ''abc'' else Inl (other_error 2)),
      resolve_redirect_location = (\<lambda>base location. location),
      is_redirect = (\<lambda>code. 300 \<le> code \<and> code < 400),
      make_address = (\<lambda>name. None),
      random_shuffle = rev,
      sock_bind = (\<lambda>addr. None),
      setup_ssl_hostname = (\<lambda>ssl name. None),
      holds_socks5_stream =
        (\<lambda>s ssl. (ps_type (sock_proxy s) = socks5 \<or> ps_type (sock_proxy s) = socks5_pw)
                   \<and> sock_ssl s = ssl),
      reset = (\<lambda>p. []),
      incoming = (\<lambda>p buf. (buf, take 1 buf = ''!'')),
      header_finished = (\<lambda>p. p \<noteq> []),
      finished = (\<lambda>p. 4 \<le> length p),
      status_code = (\<lambda>p. if take 1 p = ''R'' then 302 else if take 1 p = ''M'' then 301 else 200),
      header = demo_header,
      body_start = (\<lambda>p. 1),
      get_body_size = (\<lambda>p. int (length p) - 1),
      collapse_chunk_headers = (\<lambda>p data. data)\<rparr>"

text \<open>A bottled connection with a handler and no hooks, constructed at time 0.\<close>

definition demo_bottled :: "int \<Rightarrow> string http_connection" where
  "demo_bottled max_size = http_connection_init [] 0 True True max_size False None None"

definition demo_streaming :: "string http_connection" where
  "demo_streaming = http_connection_init [] 0 True False 4096 False None None"

text \<open>The same, with an endpoint filter that lets no endpoint through.\<close>

definition demo_filtered :: "string http_connection" where
  "demo_filtered = http_connection_init [] 0 True True 4096 False (Some (\<lambda>eps. [])) None"

text \<open>The owner's call \<open>get(url, seconds(10), 0, nullptr, 5, "agent", {}, {}, "")\<close>.\<close>

definition demo_get :: "string \<Rightarrow> input" where
  "demo_get url = Call_get url (seconds 10) 0 None 5 ''agent'' None 0 []"

subsection \<open>What the specification says, in its own words\<close>

text \<open>
  The input errors of \<open>get\<close>: a URL that fails to parse (the parser's error), a host that
  the installed hostname filter rejects (\<open>blocked_by_idna\<close>), a scheme that is neither
  \<open>http\<close> nor, where TLS is compiled in, \<open>https\<close> (\<open>unsupported_url_protocol\<close>).
\<close>

definition spec_input_error :: "'p env \<Rightarrow> 'p http_connection \<Rightarrow> string \<Rightarrow> error_code" where
  "spec_input_error env c url =
     (case parse_url_components env url of (ec, protocol, url_auth, hostname, url_port, path) \<Rightarrow>
        if ec \<noteq> None then ec
        else if (case m_hostname_filter_handler c of None \<Rightarrow> False | Some f \<Rightarrow> \<not> f hostname)
          then Some blocked_by_idna
        else if protocol \<notin> (if use_ssl env then {''http'', ''https''} else {''http''})
          then Some unsupported_url_protocol
        else None)"

text \<open>
  The request when no plain HTTP proxy is used, as a list of lines: the request line, the
  \<open>Host\<close> header with the port only when it is not the default one, then \<open>User-Agent\<close>
  if non-empty, \<open>Accept-Encoding: gzip\<close> if bottled, \<open>Authorization\<close> if there are
  credentials, \<open>Connection: close\<close>, and the blank line. Every line ends in CR LF.
\<close>

definition spec_request_lines ::
  "'p env \<Rightarrow> bool \<Rightarrow> string \<Rightarrow> string \<Rightarrow> int \<Rightarrow> int \<Rightarrow> string \<Rightarrow> string \<Rightarrow> string list" where
  "spec_request_lines env bottled path host port default_port user_agent auth =
     [''GET '' @ path @ '' HTTP/1.1'',
      ''Host: '' @ host @ (if port = default_port then [] else '':'' @ dec_int port)]
     @ (if user_agent = [] then [] else [''User-Agent: '' @ user_agent])
     @ (if bottled then [''Accept-Encoding: gzip''] else [])
     @ (if auth = [] then [] else [''Authorization: Basic '' @ base64encode env auth])
     @ [''Connection: close'', []]"

definition spec_request ::
  "'p env \<Rightarrow> bool \<Rightarrow> string \<Rightarrow> string \<Rightarrow> int \<Rightarrow> int \<Rightarrow> string \<Rightarrow> string \<Rightarrow> string" where
  "spec_request env bottled path host port default_port user_agent auth =
     concat (map (\<lambda>line. line @ crlf)
       (spec_request_lines env bottled path host port default_port user_agent auth))"

definition scheme_default_port :: "string \<Rightarrow> int" where
  "scheme_default_port protocol = (if protocol = ''https'' then 443 else 80)"

text \<open>What a redirect carries over from the request it replaces.\<close>

definition request_settings ::
  "'p http_connection \<Rightarrow> int \<times> int \<times> proxy_settings \<times> string \<times> address option \<times> nat" where
  "request_settings c =
     (m_completion_timeout c, m_priority c, m_proxy c, m_user_agent c, m_bind_addr c,
      m_resolve_flags c)"

text \<open>
  The connection after the request has been written and before the first read completes:
  \<open>get\<close>, the lookup answered with two addresses, the connect and the write succeeded.
\<close>

definition demo_reading :: "int \<Rightarrow> string http_connection" where
  "demo_reading max_size =
     run demo_env (demo_bottled max_size)
       [demo_get ''http://example.org/a'', Resolved None [V4 1, V4 2], Connected None,
        Written None]"

text \<open>
  The connection while the name lookup is still in flight, 10 seconds (the whole
  completion timeout) after \<open>get\<close>.
\<close>

definition demo_resolving :: "string http_connection" where
  "demo_resolving =
     run demo_env (demo_bottled 4096) [demo_get ''http://example.org/a'', Tick (seconds 10)]"

text \<open>A response of exactly 4096 bytes: a plain 200 whose body is complete.\<close>

definition demo_full_response :: string where
  "demo_full_response = CHR ''P'' # replicate 4095 (CHR ''x'')"

subsection \<open>The endpoint list\<close>

text \<open>
  The bookkeeping of the endpoint list: \<open>m_next_ep\<close> is an index into \<open>m_endpoints\<close> or
  its length, and while a lookup is in flight the list is still empty.
\<close>

definition endpoints_ok :: "'p http_connection \<Rightarrow> bool" where
  "endpoints_ok c =
     (0 \<le> m_next_ep c \<and> m_next_ep c \<le> int (length (m_endpoints c))
      \<and> (if m_resolving_host c then m_endpoints c = [] else True))"

text \<open>
  The inputs that begin a request anew, with a call of \<open>start\<close>: the owner's \<open>get\<close> and
  \<open>start\<close>, and a read that \<open>on_read\<close> answers with a redirect (lines 641 to 662).
\<close>

definition on_read_redirects ::
  "'p env \<Rightarrow> 'p http_connection \<Rightarrow> error_code \<Rightarrow> int \<Rightarrow> bool" where
  "on_read_redirects env c e n =
     (e = None \<and> \<not> m_abort c \<and> (m_bottled c \<or> \<not> header_finished env (m_parser c))
      \<and> (case incoming env (m_parser c) (take (nat (m_read_pos c + n)) (m_recvbuffer c)) of
            (parser', error) \<Rightarrow>
              \<not> error \<and> redirecting env (c\<lparr>m_parser := parser'\<rparr>)
                \<and> header env parser' ''location'' \<noteq> []))"

fun restarts :: "'p env \<Rightarrow> 'p http_connection \<Rightarrow> input \<Rightarrow> bool" where
  "restarts env c (Call_get url timeout prio ps redirects ua bind_addr flags auth) = True"
| "restarts env c (Call_start hostname port timeout prio ps ssl redirects bind_addr flags) = True"
| "restarts env c (Read_done e data) =
     on_read_redirects env (socket_write data c) e (int (length data))"
| "restarts env c _ = False"

text \<open>The inputs that put endpoints into the list: those above and the resolver's answer.\<close>

fun refills :: "'p env \<Rightarrow> 'p http_connection \<Rightarrow> input \<Rightarrow> bool" where
  "refills env c (Resolved e addresses) = True"
| "refills env c i = restarts env c i"

text \<open>A run of inputs none of which, in the state it arrives in, is of a given kind.\<close>

fun never ::
  "('p http_connection \<Rightarrow> input \<Rightarrow> bool) \<Rightarrow> 'p env \<Rightarrow> 'p http_connection \<Rightarrow> input list \<Rightarrow> bool" where
  "never kind env c [] = True"
| "never kind env c (i # inputs) = ((\<not> kind c i) \<and> never kind env (step env c i) inputs)"

text \<open>The part of the state that the endpoint bookkeeping is about, with the number of connects asked for so far.\<close>

definition endpoint_view :: "'p http_connection \<Rightarrow> int \<times> endpoint list \<times> bool \<times> nat" where
  "endpoint_view c =
     (m_next_ep c, m_endpoints c, m_resolving_host c, connect_attempts (trace c))"

section \<open>Properties\<close>

subsection \<open>Unfolding sets and frame lemmas\<close>

lemmas basic_defs = emit_def sock_close_def timer_cancel_def limiter_cancel_def timer_wait_at_def
  limiter_wait_at_def post_callback_def async_connect_def invoke_handler_def deliver_def

lemmas demo_defs = demo_env_def demo_parse_url_def demo_header_def demo_bottled_def
  demo_streaming_def demo_filtered_def demo_get_def http_connection_init_def null_proxy_def
  seconds_def milliseconds_def

lemmas handler_defs = get_def start_def start_resolve_def connect_def callback_def close_def
  on_resolve_def on_connect_def on_write_def on_read_def on_read_tail_def issue_read_def
  charge_quota_def on_read_redirect_def on_read_deliver_def on_read_parsed_def
  on_assign_bandwidth_def on_timeout_def rate_limit_def socket_write_def redirecting_def
  socks5_hostnames_def http_proxy_def build_request_def sock_is_open_def uint16_def resize_def
  span_at_def first_subspan_def deadline_def set_first_address_def crlf_def cpp_div_def
  connect_throws_def to_size_t_def

lemmas run_defs = run_def demo_defs demo_reading_def handler_defs basic_defs Let_def

lemma callback_frame [simp]:
  "m_abort (callback env c e d) = m_abort c"
  "m_next_ep (callback env c e d) = m_next_ep c"
  "m_endpoints (callback env c e d) = m_endpoints c"
  "m_resolving_host (callback env c e d) = m_resolving_host c"
  "m_handler (callback env c e d) = m_handler c"
  "m_bottled (callback env c e d) = m_bottled c"
  by (simp_all add: callback_def basic_defs Let_def split: sum.splits)

lemma close_frame [simp]:
  "m_next_ep (close f c) = m_next_ep c"
  "m_endpoints (close f c) = m_endpoints c"
  "m_resolving_host (close f c) = m_resolving_host c"
  "m_bottled (close f c) = m_bottled c"
  by (simp_all add: close_def basic_defs Let_def split: option.splits)

lemma connect_frame [simp]:
  "m_abort (connect env c) = m_abort c"
  "m_resolving_host (connect env c) = m_resolving_host c"
  "m_handler (connect env c) = m_handler c"
  "m_bottled (connect env c) = m_bottled c"
  "m_sendbuffer (connect env c) = m_sendbuffer c"
  by (simp_all add: connect_def basic_defs Let_def split: option.splits)

lemma start_frame [simp]:
  "m_abort (start env c h p t pr ps ssl r b fl) = m_abort c"
  "m_handler (start env c h p t pr ps ssl r b fl) = m_handler c"
  "m_bottled (start env c h p t pr ps ssl r b fl) = m_bottled c"
  "m_sendbuffer (start env c h p t pr ps ssl r b fl) = m_sendbuffer c"
  by (simp_all add: start_def start_resolve_def basic_defs Let_def split: option.splits)

lemma get_frame [simp]:
  "m_abort (get env c url t pr ps r ua b fl au) = m_abort c"
  "m_handler (get env c url t pr ps r ua b fl au) = m_handler c"
  "m_bottled (get env c url t pr ps r ua b fl au) = m_bottled c"
  by (simp_all add: get_def basic_defs Let_def split: option.splits prod.splits)

lemma on_assign_bandwidth_frame [simp]:
  "m_abort (on_assign_bandwidth env c e) = m_abort c"
  "m_next_ep (on_assign_bandwidth env c e) = m_next_ep c"
  "m_endpoints (on_assign_bandwidth env c e) = m_endpoints c"
  "m_resolving_host (on_assign_bandwidth env c e) = m_resolving_host c"
  "m_handler (on_assign_bandwidth env c e) = m_handler c"
  "m_bottled (on_assign_bandwidth env c e) = m_bottled c"
  by (simp_all add: on_assign_bandwidth_def basic_defs Let_def)

lemma issue_read_frame [simp]:
  "m_abort (issue_read env c) = m_abort c"
  "m_next_ep (issue_read env c) = m_next_ep c"
  "m_endpoints (issue_read env c) = m_endpoints c"
  "m_resolving_host (issue_read env c) = m_resolving_host c"
  "m_handler (issue_read env c) = m_handler c"
  "m_bottled (issue_read env c) = m_bottled c"
  by (simp_all add: issue_read_def basic_defs Let_def)

lemma on_read_tail_frame [simp]:
  "m_abort (on_read_tail env c) = m_abort c"
  "m_next_ep (on_read_tail env c) = m_next_ep c"
  "m_endpoints (on_read_tail env c) = m_endpoints c"
  "m_resolving_host (on_read_tail env c) = m_resolving_host c"
  "m_handler (on_read_tail env c) = m_handler c"
  "m_bottled (on_read_tail env c) = m_bottled c"
  by (simp_all add: on_read_tail_def basic_defs Let_def)

lemma on_read_parts_abort [simp]:
  "m_abort (charge_quota n c) = m_abort c"
  "m_abort (on_read_redirect env c) = m_abort c"
  "m_abort (on_read_deliver env c) = m_abort c"
  "m_abort (on_read_parsed env c) = m_abort c"
  by (simp_all add: charge_quota_def on_read_redirect_def on_read_deliver_def on_read_parsed_def
        basic_defs Let_def)

lemma on_read_abort: "m_abort (on_read env c e n) = m_abort c"
  by (simp add: on_read_def Let_def split: prod.splits)

lemma on_write_abort: "m_abort (on_write env c e) = m_abort c"
  by (simp add: on_write_def)

lemma on_connect_abort: "m_abort (on_connect env c e) = m_abort c"
  by (simp add: on_connect_def basic_defs Let_def)

lemma on_resolve_abort: "m_abort c \<Longrightarrow> m_abort (on_resolve env c e as)"
  by (simp add: on_resolve_def Let_def close_def split: option.splits)

lemma on_timeout_abort: "m_abort c \<Longrightarrow> on_timeout env c e = c"
  by (simp add: on_timeout_def)

lemma rate_limit_abort: "m_abort (rate_limit n c) = m_abort c"
  by (simp add: rate_limit_def basic_defs Let_def)

lemma step_abort: "m_abort c \<Longrightarrow> m_abort (step env c i)"
  by (cases i)
    (simp_all add: on_read_abort on_write_abort on_connect_abort on_resolve_abort
       on_timeout_abort rate_limit_abort close_def socket_write_def)

lemma run_abort: "m_abort c \<Longrightarrow> m_abort (run env c inputs)"
  unfolding run_def by (induction inputs arbitrary: c) (simp_all add: step_abort)


subsection \<open>\<open>close\<close>\<close>

lemma close_aborts: "m_abort (close force c)"
  by (simp add: close_def Let_def)

lemma close_when_aborted: "m_abort c \<Longrightarrow> close force c = c"
  by (simp add: close_def)

text \<open>
  C10. \<open>close\<close> is idempotent. After a call of \<open>close\<close> (with either value of \<open>force\<close>)
  the abort flag is set, and a second call of \<open>close\<close>, again with either value of
  \<open>force\<close>, returns the state it was given: the socket, both timers, host, port, the
  handler reference and every other member are as the first call left them, and nothing
  more is asked of the outside. No member function clears the abort flag, so the same
  holds for a call of \<open>close\<close> that comes after any further events.
\<close>

theorem close_idempotent:
  "m_abort (close force c)
   \<and> close force' (close force c) = close force c
   \<and> close force' (run env (close force c) inputs) = run env (close force c) inputs"
  by (simp add: close_aborts close_when_aborted run_abort)

theorem close_idempotent_witness:
  "m_abort (close True (demo_bottled 4096))
   \<and> close False (close True (demo_bottled 4096)) = close True (demo_bottled 4096)
   \<and> close False (run demo_env (close True (demo_bottled 4096)) [Tick 5, Timer_fired None])
       = run demo_env (close True (demo_bottled 4096)) [Tick 5, Timer_fired None]"
  by (rule close_idempotent)

subsection \<open>\<open>get\<close>: input errors and the request text\<close>

lemma connect_calls [simp]: "handler_calls (trace (connect env c)) = handler_calls (trace c)"
  by (simp add: connect_def basic_defs Let_def split: option.splits)

lemma start_calls [simp]:
  "handler_calls (trace (start env c h p t pr ps ssl r b fl)) = handler_calls (trace c)"
  by (simp add: start_def start_resolve_def basic_defs Let_def split: option.splits)




lemma callback_no_data:
  "m_handler c \<Longrightarrow> \<not> (m_bottled c \<and> m_called c) \<Longrightarrow>
     handler_calls (trace (callback env c e [])) = handler_calls (trace c) @ [(e, [])]"
  by (simp add: callback_def basic_defs)


lemma spec_request_no_accept:
  "\<forall>line \<in> set (spec_request_lines env bottled path host port default_port user_agent auth).
     take 7 line \<noteq> ''Accept:''"
  by (simp add: spec_request_lines_def)

lemma build_request_direct:
  assumes "\<not> (case ps of None \<Rightarrow> False | Some p \<Rightarrow> http_proxy p \<and> \<not> ssl)"
  shows "build_request env bottled url ps ssl hostname path port default_port agent auth
           = spec_request env bottled path hostname port default_port agent auth"
proof (cases ps)
  case None
  then show ?thesis
    by (simp add: build_request_def spec_request_def spec_request_lines_def)
next
  case (Some p)
  show ?thesis
  proof (cases "http_proxy p")
    case True
    with assms Some have "ssl"
      by simp
    with Some show ?thesis
      by (simp add: build_request_def spec_request_def spec_request_lines_def)
  next
    case False
    with Some show ?thesis
      by (simp add: build_request_def spec_request_def spec_request_lines_def)
  qed
qed

lemma get_valid_sendbuffer:
  assumes "parse_url_components env url = (ec, protocol, url_auth, hostname, url_port, path)"
    and "spec_input_error env c url = None"
  shows "m_sendbuffer (get env c url timeout prio ps redirects ua bind_addr flags auth_arg)
           = build_request env (m_bottled c) url ps (protocol = ''https'') hostname path
               (if url_port = - 1 then scheme_default_port protocol else url_port)
               (scheme_default_port protocol) ua (if url_auth = [] then auth_arg else url_auth)"
  using assms
  by (auto simp add: get_def spec_input_error_def Let_def scheme_default_port_def
        split: if_splits)

text \<open>
  C4. When \<open>get\<close> passes its input checks and no plain HTTP proxy is in use (no proxy, a
  proxy of another type, or an \<open>https\<close> URL), the send buffer is the request line
  \<open>GET <path> HTTP/1.1\<close>, the \<open>Host\<close> header with the port only when it differs from
  the default of the scheme (443 for \<open>https\<close>, 80 otherwise), then, in this order,
  \<open>User-Agent\<close> if the user agent is non-empty, \<open>Accept-Encoding: gzip\<close> if bottled,
  \<open>Authorization: Basic\<close> with the encoded credentials if there are any,
  \<open>Connection: close\<close>, and the blank line; no line of it is an \<open>Accept\<close> header.
\<close>

theorem get_request_text:
  assumes parsed: "parse_url_components env url = (ec, protocol, url_auth, hostname, url_port, path)"
    and valid: "spec_input_error env c url = None"
    and direct: "\<not> (case ps of None \<Rightarrow> False | Some p \<Rightarrow> http_proxy p \<and> protocol \<noteq> ''https'')"
  shows "m_sendbuffer (get env c url timeout prio ps redirects ua bind_addr flags auth_arg)
           = spec_request env (m_bottled c) path hostname
               (if url_port = - 1 then scheme_default_port protocol else url_port)
               (scheme_default_port protocol) ua (if url_auth = [] then auth_arg else url_auth)
         \<and> (\<forall>line \<in> set (spec_request_lines env (m_bottled c) path hostname
                 (if url_port = - 1 then scheme_default_port protocol else url_port)
                 (scheme_default_port protocol) ua (if url_auth = [] then auth_arg else url_auth)).
               take 7 line \<noteq> ''Accept:'')"
proof (intro conjI)
  have req: "build_request env (m_bottled c) url ps (protocol = ''https'') hostname path
               (if url_port = - 1 then scheme_default_port protocol else url_port)
               (scheme_default_port protocol) ua (if url_auth = [] then auth_arg else url_auth)
           = spec_request env (m_bottled c) path hostname
               (if url_port = - 1 then scheme_default_port protocol else url_port)
               (scheme_default_port protocol) ua (if url_auth = [] then auth_arg else url_auth)"
    by (rule build_request_direct) (rule direct)
  show "m_sendbuffer (get env c url timeout prio ps redirects ua bind_addr flags auth_arg)
           = spec_request env (m_bottled c) path hostname
               (if url_port = - 1 then scheme_default_port protocol else url_port)
               (scheme_default_port protocol) ua (if url_auth = [] then auth_arg else url_auth)"
    by (simp only: get_valid_sendbuffer [OF parsed valid] req)
  show "\<forall>line \<in> set (spec_request_lines env (m_bottled c) path hostname
                 (if url_port = - 1 then scheme_default_port protocol else url_port)
                 (scheme_default_port protocol) ua (if url_auth = [] then auth_arg else url_auth)).
               take 7 line \<noteq> ''Accept:''"
    by (rule spec_request_no_accept)
qed

theorem get_request_text_witness:
  "m_sendbuffer (step demo_env (demo_bottled 4096) (demo_get ''http://example.org/a''))
     = ''GET /a HTTP/1.1'' @ crlf @ ''Host: example.org'' @ crlf @ ''User-Agent: agent'' @ crlf
       @ ''Accept-Encoding: gzip'' @ crlf @ ''Connection: close'' @ crlf @ crlf"
  using get_request_text [where env = demo_env and url = "''http://example.org/a''"
      and ec = None and protocol = "''http''" and url_auth = "[]" and hostname = "''example.org''"
      and url_port = "- 1" and path = "''/a''" and c = "demo_bottled 4096" and ps = None
      and timeout = "seconds 10" and prio = 0 and redirects = 5 and ua = "''agent''"
      and bind_addr = None and flags = 0 and auth_arg = "[]"]
  by (simp add: demo_defs spec_input_error_def spec_request_def spec_request_lines_def
        scheme_default_port_def)




subsection \<open>\<open>on_read\<close>: redirects\<close>

lemma connect_settings [simp]:
  "m_completion_timeout (connect env c) = m_completion_timeout c"
  "m_priority (connect env c) = m_priority c"
  "m_proxy (connect env c) = m_proxy c"
  "m_user_agent (connect env c) = m_user_agent c"
  "m_bind_addr (connect env c) = m_bind_addr c"
  "m_resolve_flags (connect env c) = m_resolve_flags c"
  "m_redirects (connect env c) = m_redirects c"
  "m_auth (connect env c) = m_auth c"
  by (simp_all add: connect_def basic_defs Let_def split: option.splits)

lemma start_resolve_settings [simp]:
  "m_completion_timeout (start_resolve env c h p ps ssl) = m_completion_timeout c"
  "m_priority (start_resolve env c h p ps ssl) = m_priority c"
  "m_proxy (start_resolve env c h p ps ssl) = m_proxy c"
  "m_user_agent (start_resolve env c h p ps ssl) = m_user_agent c"
  "m_bind_addr (start_resolve env c h p ps ssl) = m_bind_addr c"
  "m_resolve_flags (start_resolve env c h p ps ssl) = m_resolve_flags c"
  "m_redirects (start_resolve env c h p ps ssl) = m_redirects c"
  "m_auth (start_resolve env c h p ps ssl) = m_auth c"
  by (simp_all add: start_resolve_def basic_defs Let_def)

lemma start_settings:
  "request_settings (start env c h p t pr ps ssl r b fl)
     = (t, pr, (case ps of None \<Rightarrow> m_proxy c | Some q \<Rightarrow> q), m_user_agent c, b, fl)"
  "m_redirects (start env c h p t pr ps ssl r b fl) = r"
  "m_auth (start env c h p t pr ps ssl r b fl) = m_auth c"
  by (auto simp add: start_def request_settings_def basic_defs Let_def split: option.splits)

lemma get_valid:
  assumes parsed: "parse_url_components env url = (ec, protocol, url_auth, hostname, url_port, path)"
    and valid: "spec_input_error env c url = None"
  shows "\<exists>h p. get env c url t pr ps r ua b fl au =
           start env
             (c\<lparr>m_user_agent := ua, m_resolve_flags := fl,
                m_auth := (if url_auth = [] then au else url_auth),
                m_sendbuffer := build_request env (m_bottled c) url ps (protocol = ''https'')
                  hostname path
                  (if url_port = - 1 then scheme_default_port protocol else url_port)
                  (scheme_default_port protocol) ua (if url_auth = [] then au else url_auth),
                m_url := url\<rparr>)
             h p t pr ps (protocol = ''https'') r b fl"
proof -
  have ec: "ec = None"
    and filt: "\<not> (case m_hostname_filter_handler c of None \<Rightarrow> False | Some f \<Rightarrow> \<not> f hostname)"
    and proto: "protocol = ''http'' \<or> (use_ssl env \<and> protocol = ''https'')"
    using valid by (simp_all add: spec_input_error_def parsed split: if_splits)
  from proto show ?thesis
  proof
    assume "protocol = ''http''"
    then show ?thesis
      using filt by (auto simp add: get_def parsed Let_def ec scheme_default_port_def)
  next
    assume "use_ssl env \<and> protocol = ''https''"
    then show ?thesis
      using filt by (auto simp add: get_def parsed Let_def ec scheme_default_port_def)
  qed
qed

lemma get_valid_settings:
  assumes parsed: "parse_url_components env url = (ec, protocol, url_auth, hostname, url_port, path)"
    and valid: "spec_input_error env c url = None"
  shows "request_settings (get env c url t pr ps r ua b fl au)
           = (t, pr, (case ps of None \<Rightarrow> m_proxy c | Some q \<Rightarrow> q), ua, b, fl)
         \<and> m_redirects (get env c url t pr ps r ua b fl au) = r
         \<and> m_auth (get env c url t pr ps r ua b fl au) = (if url_auth = [] then au else url_auth)"
proof -
  from get_valid [OF parsed valid] obtain h p where
    "get env c url t pr ps r ua b fl au =
           start env
             (c\<lparr>m_user_agent := ua, m_resolve_flags := fl,
                m_auth := (if url_auth = [] then au else url_auth),
                m_sendbuffer := build_request env (m_bottled c) url ps (protocol = ''https'')
                  hostname path
                  (if url_port = - 1 then scheme_default_port protocol else url_port)
                  (scheme_default_port protocol) ua (if url_auth = [] then au else url_auth),
                m_url := url\<rparr>)
             h p t pr ps (protocol = ''https'') r b fl"
    by blast
  then show ?thesis
    by (cases ps) (simp_all add: start_settings)
qed

lemma charge_quota_frame [simp]:
  "m_abort (charge_quota n c) = m_abort c"
  "m_bottled (charge_quota n c) = m_bottled c"
  "m_called (charge_quota n c) = m_called c"
  "m_handler (charge_quota n c) = m_handler c"
  "m_parser (charge_quota n c) = m_parser c"
  "m_read_pos (charge_quota n c) = m_read_pos c"
  "m_recvbuffer (charge_quota n c) = m_recvbuffer c"
  "m_redirects (charge_quota n c) = m_redirects c"
  "m_url (charge_quota n c) = m_url c"
  "m_auth (charge_quota n c) = m_auth c"
  "m_max_bottled_buffer_size (charge_quota n c) = m_max_bottled_buffer_size c"
  "request_settings (charge_quota n c) = request_settings c"
  "trace (charge_quota n c) = trace c"
  "m_hostname_filter_handler (charge_quota n c) = m_hostname_filter_handler c"
  by (simp_all add: charge_quota_def request_settings_def)

lemma on_read_to_parsed:
  assumes "\<not> m_abort c"
    and "m_bottled c \<or> \<not> header_finished env (m_parser c)"
    and "incoming env (m_parser c) (take (nat (m_read_pos c + n)) (m_recvbuffer c)) = (parser', False)"
  shows "on_read env c None n
           = on_read_parsed env ((charge_quota n c)\<lparr>m_read_pos := m_read_pos c + n, m_parser := parser'\<rparr>)"
  using assms by (simp add: on_read_def Let_def)


lemma on_read_redirect_taken:
  assumes "0 < m_redirects c" and "header_finished env (m_parser c)"
    and "is_redirect env (status_code env (m_parser c))"
  shows "on_read_parsed env c = on_read_redirect env c"
  using assms by (simp add: on_read_parsed_def redirecting_def)

lemma sock_close_frame [simp]:
  "m_hostname_filter_handler (sock_close c) = m_hostname_filter_handler c"
  "m_proxy (sock_close c) = m_proxy c"
  "\<not> sock_is_open (sock_close c)"
  "trace (sock_close c) = trace c @ [Sock_close]"
  by (simp_all add: sock_close_def emit_def sock_is_open_def split: option.splits)

lemma spec_input_error_cong:
  assumes "m_hostname_filter_handler c' = m_hostname_filter_handler c"
  shows "spec_input_error env c' url = spec_input_error env c url"
  unfolding spec_input_error_def assms by (rule refl)

text \<open>
  C5. A successful read on a live connection whose bytes the parser accepts, with
  redirects left, the headers finished and a redirect status: when the \<open>Location\<close>
  header is absent, \<open>on_read\<close> is \<open>callback(http_missing_location)\<close>, which hands that
  error to the handler (unless a bottled response was delivered before). Otherwise
  \<open>on_read\<close> closes the socket at once (\<open>m_sock->close\<close>, no shutdown) and is the call
  of \<open>get\<close> on \<open>resolve_redirect_location(m_url, location)\<close> with \<open>m_redirects - 1\<close> and
  with the timeout, priority, proxy snapshot, user agent, bind address, resolve flags
  and credentials of the connection; when the new URL passes the input checks of \<open>get\<close>
  the connection has these settings afterwards, one redirect less, and the same
  credentials unless the new URL carries its own.
\<close>

theorem on_read_redirect_or_missing_location:
  assumes live: "\<not> m_abort c"
    and feeds: "m_bottled c \<or> \<not> header_finished env (m_parser c)"
    and parsed: "incoming env (m_parser c) (take (nat (m_read_pos c + n)) (m_recvbuffer c))
                   = (parser', False)"
    and left: "0 < m_redirects c"
    and hdr: "header_finished env parser'"
    and code: "is_redirect env (status_code env parser')"
    and c3: "c3 = (charge_quota n c)\<lparr>m_read_pos := m_read_pos c + n, m_parser := parser'\<rparr>"
    and loc: "location = header env parser' ''location''"
    and target: "target = resolve_redirect_location env (m_url c) location"
  shows "(location = [] \<longrightarrow>
            on_read env c None n = callback env c3 (Some http_missing_location) []
            \<and> (m_handler c \<and> \<not> (m_bottled c \<and> m_called c) \<longrightarrow>
                 handler_calls (trace (on_read env c None n))
                   = handler_calls (trace c) @ [(Some http_missing_location, [])]))
       \<and> (location \<noteq> [] \<longrightarrow>
            on_read env c None n
              = get env (sock_close c3) target (m_completion_timeout c) (m_priority c)
                  (Some (m_proxy c)) (m_redirects c - 1) (m_user_agent c) (m_bind_addr c)
                  (m_resolve_flags c) (m_auth c)
            \<and> \<not> sock_is_open (sock_close c3)
            \<and> trace (sock_close c3) = trace c @ [Sock_close]
            \<and> (spec_input_error env c target = None \<longrightarrow>
                 request_settings (on_read env c None n) = request_settings c
                 \<and> m_redirects (on_read env c None n) = m_redirects c - 1
                 \<and> (fst (snd (snd (parse_url_components env target))) = [] \<longrightarrow>
                      m_auth (on_read env c None n) = m_auth c)))"
proof -
  have fields: "m_url c3 = m_url c" "m_redirects c3 = m_redirects c" "m_parser c3 = parser'"
    "m_auth c3 = m_auth c" "request_settings c3 = request_settings c"
    "m_handler c3 = m_handler c" "m_bottled c3 = m_bottled c" "m_called c3 = m_called c"
    "trace c3 = trace c" "m_hostname_filter_handler c3 = m_hostname_filter_handler c"
    using charge_quota_frame(12) [of n c]
    by (simp_all add: c3 request_settings_def)
  have settings: "m_completion_timeout c3 = m_completion_timeout c" "m_priority c3 = m_priority c"
    "m_proxy c3 = m_proxy c" "m_user_agent c3 = m_user_agent c" "m_bind_addr c3 = m_bind_addr c"
    "m_resolve_flags c3 = m_resolve_flags c"
    using fields(5) by (simp_all add: request_settings_def)
  have "on_read env c None n = on_read_parsed env c3"
    unfolding c3 by (rule on_read_to_parsed [OF live feeds parsed])
  also have "\<dots> = on_read_redirect env c3"
    by (rule on_read_redirect_taken) (simp_all add: fields left hdr code)
  finally have redirect: "on_read env c None n = on_read_redirect env c3" .
  show ?thesis
  proof (intro conjI impI)
    assume "location = []"
    then show "on_read env c None n = callback env c3 (Some http_missing_location) []"
      by (simp add: redirect on_read_redirect_def fields loc)
  next
    assume "location = []" and "m_handler c \<and> \<not> (m_bottled c \<and> m_called c)"
    then show "handler_calls (trace (on_read env c None n))
                 = handler_calls (trace c) @ [(Some http_missing_location, [])]"
      by (simp add: redirect on_read_redirect_def fields loc callback_no_data)
  next
    assume "location \<noteq> []"
    then show "on_read env c None n
              = get env (sock_close c3) target (m_completion_timeout c) (m_priority c)
                  (Some (m_proxy c)) (m_redirects c - 1) (m_user_agent c) (m_bind_addr c)
                  (m_resolve_flags c) (m_auth c)"
      by (simp add: redirect on_read_redirect_def fields settings loc target Let_def)
  next
    show "\<not> sock_is_open (sock_close c3)"
      by simp
  next
    show "trace (sock_close c3) = trace c @ [Sock_close]"
      by (simp add: fields)
  next
    assume nonempty: "location \<noteq> []" and valid: "spec_input_error env c target = None"
    obtain ec protocol url_auth hostname url_port path
      where p: "parse_url_components env target = (ec, protocol, url_auth, hostname, url_port, path)"
      using prod_cases6 by blast
    have valid': "spec_input_error env (sock_close c3) target = None"
      using valid by (simp add: spec_input_error_cong [of "sock_close c3" c] fields)
    have eq: "on_read env c None n
              = get env (sock_close c3) target (m_completion_timeout c) (m_priority c)
                  (Some (m_proxy c)) (m_redirects c - 1) (m_user_agent c) (m_bind_addr c)
                  (m_resolve_flags c) (m_auth c)"
      using nonempty
      by (simp add: redirect on_read_redirect_def fields settings loc target Let_def)
    note after = get_valid_settings [OF p valid', of "m_completion_timeout c" "m_priority c"
        "Some (m_proxy c)" "m_redirects c - 1" "m_user_agent c" "m_bind_addr c"
        "m_resolve_flags c" "m_auth c"]
    show "request_settings (on_read env c None n) = request_settings c"
      using after by (simp add: eq request_settings_def)
    show "m_redirects (on_read env c None n) = m_redirects c - 1"
      using after by (simp add: eq)
    show "m_auth (on_read env c None n) = m_auth c"
      if "fst (snd (snd (parse_url_components env target))) = []"
      using after that by (simp add: eq p)
  qed
qed


theorem on_read_redirect_or_missing_location_witness:
  "m_redirects (on_read demo_env (socket_write ''Rxyz'' (demo_reading 4096)) None 4) = 4
   \<and> request_settings (on_read demo_env (socket_write ''Rxyz'' (demo_reading 4096)) None 4)
       = (seconds 10, 0, null_proxy, ''agent'', None, 0)
   \<and> handler_calls (trace (on_read demo_env (socket_write ''Mxyz'' (demo_reading 4096)) None 4))
       = [(Some http_missing_location, [])]"
proof -
  let ?r = "socket_write ''Rxyz'' (demo_reading 4096)"
  let ?m = "socket_write ''Mxyz'' (demo_reading 4096)"
  have r: "\<not> m_abort ?r" "m_bottled ?r \<or> \<not> header_finished demo_env (m_parser ?r)"
    "incoming demo_env (m_parser ?r) (take (nat (m_read_pos ?r + 4)) (m_recvbuffer ?r))
       = (''Rxyz'', False)"
    "0 < m_redirects ?r" "header_finished demo_env ''Rxyz''"
    "is_redirect demo_env (status_code demo_env ''Rxyz'')"
    by (simp_all add: run_defs)
  have m: "\<not> m_abort ?m" "m_bottled ?m \<or> \<not> header_finished demo_env (m_parser ?m)"
    "incoming demo_env (m_parser ?m) (take (nat (m_read_pos ?m + 4)) (m_recvbuffer ?m))
       = (''Mxyz'', False)"
    "0 < m_redirects ?m" "header_finished demo_env ''Mxyz''"
    "is_redirect demo_env (status_code demo_env ''Mxyz'')"
    by (simp_all add: run_defs)
  have location: "header demo_env ''Rxyz'' ''location'' \<noteq> []"
    "header demo_env ''Mxyz'' ''location'' = []"
    by (simp_all add: demo_defs)
  have valid: "spec_input_error demo_env ?r
      (resolve_redirect_location demo_env (m_url ?r) (header demo_env ''Rxyz'' ''location'')) = None"
    by (simp add: run_defs spec_input_error_def)
  have before: "m_redirects ?r = 5"
    "request_settings ?r = (seconds 10, 0, null_proxy, ''agent'', None, 0)"
    by (simp_all add: run_defs request_settings_def)
  have fresh: "m_handler ?m \<and> \<not> (m_bottled ?m \<and> m_called ?m)"
    and silent: "handler_calls (trace ?m) = []"
    by (simp_all add: run_defs)
  from on_read_redirect_or_missing_location [OF r refl refl refl] location(1) valid
  have "m_redirects (on_read demo_env ?r None 4) = m_redirects ?r - 1
        \<and> request_settings (on_read demo_env ?r None 4) = request_settings ?r"
    by blast
  then have "m_redirects (on_read demo_env ?r None 4) = 4
        \<and> request_settings (on_read demo_env ?r None 4)
            = (seconds 10, 0, null_proxy, ''agent'', None, 0)"
    by (simp only: before) simp
  moreover
  from on_read_redirect_or_missing_location [OF m refl refl refl] location(2) fresh
  have "handler_calls (trace (on_read demo_env ?m None 4))
          = handler_calls (trace ?m) @ [(Some http_missing_location, [])]"
    by blast
  then have "handler_calls (trace (on_read demo_env ?m None 4))
          = [(Some http_missing_location, [])]"
    by (simp only: silent append_Nil)
  ultimately show ?thesis
    by blast
qed


subsection \<open>\<open>on_timeout\<close>\<close>

text \<open>
  What \<open>on_timeout\<close> does when the deadline timer fires on a live connection. The
  deadline that it compares the clock with is \<open>m_start_time\<close> plus
  \<open>m_completion_timeout\<close> times 2 while \<open>m_resolving_host\<close> is set and times 1 otherwise.
  While that deadline has not passed, \<open>on_timeout\<close> does nothing but re-arm the timer,
  and it re-arms it to \<open>m_start_time + m_completion_timeout\<close>. Once the deadline has
  passed and no endpoint is left to try, it closes the socket and is
  \<open>callback(timed_out)\<close>.
\<close>

lemma on_timeout_cases:
  assumes fired: "e \<noteq> Some operation_aborted" and live: "\<not> m_abort c"
  shows "deadline c = m_start_time c + m_completion_timeout c * (if m_resolving_host c then 2 else 1)
       \<and> (clock c < deadline c \<longrightarrow>
            on_timeout env c e = timer_wait_at (m_start_time c + m_completion_timeout c) c)
       \<and> (clock c < deadline c \<and> \<not> m_resolving_host c \<longrightarrow>
            m_timer (on_timeout env c e) = Some (deadline c))
       \<and> (m_resolving_host c \<and> 0 < m_completion_timeout c
            \<and> 2 * (clock c - m_start_time c) = 3 * m_completion_timeout c \<longrightarrow>
            handler_calls (trace (on_timeout env c e)) = handler_calls (trace c)
            \<and> m_sock (on_timeout env c e) = m_sock c)
       \<and> (deadline c \<le> clock c \<and> int (length (m_endpoints c)) \<le> m_next_ep c \<longrightarrow>
            on_timeout env c e = callback env (sock_close c) (Some timed_out) [])"
  using fired live
  by (simp add: on_timeout_def deadline_def Let_def timer_wait_at_def emit_def)

text \<open>
  The timer that fires was armed for \<open>m_start_time + m_completion_timeout\<close> or later.
  When it fires during a lookup before the doubled deadline, the time it is re-armed to
  is therefore not in the future, and not the deadline.
\<close>

lemma on_timeout_rearm_not_later:
  assumes "e \<noteq> Some operation_aborted" and "\<not> m_abort c" and "m_resolving_host c"
    and "m_start_time c + m_completion_timeout c \<le> clock c" and "clock c < deadline c"
  shows "m_timer (on_timeout env c e) = Some (m_start_time c + m_completion_timeout c)
         \<and> m_start_time c + m_completion_timeout c \<le> clock c
         \<and> m_start_time c + m_completion_timeout c < deadline c"
  using assms
  by (simp add: on_timeout_def deadline_def Let_def timer_wait_at_def emit_def)

text \<open>
  C6. The deadline of \<open>on_timeout\<close> is doubled while the host is being resolved, and a
  timer that fires during the lookup before the doubled deadline raises no timeout.
  But the timer is then not re-armed to that deadline. In the run below \<open>get\<close> is called
  at time 0 with a timeout of 10 seconds and the lookup stays in flight. The timer
  fires at 10 seconds: the deadline is at 20 seconds, and the timer is re-armed to 10
  seconds. It fires again, here at 15 seconds, with the same outcome: no timeout is
  raised, and the timer is once more set to 10 seconds, a time that has passed.
\<close>

theorem on_timeout_rearms_into_the_past:
  "clock demo_resolving = seconds 10
   \<and> deadline demo_resolving = seconds 20
   \<and> m_timer (step demo_env demo_resolving (Timer_fired None)) = Some (seconds 10)
   \<and> m_timer (run demo_env demo_resolving [Timer_fired None, Tick (seconds 15), Timer_fired None])
       = Some (seconds 10)
   \<and> handler_calls
         (trace (run demo_env demo_resolving [Timer_fired None, Tick (seconds 15), Timer_fired None]))
       = []"
  by (simp add: run_defs demo_resolving_def)

subsection \<open>\<open>on_read\<close>: the receive buffer\<close>

lemma callback_buffer [simp]:
  "m_recvbuffer (callback env c e d) = m_recvbuffer c"
  "m_read_pos (callback env c e d) = m_read_pos c"
  "m_max_bottled_buffer_size (callback env c e d) = m_max_bottled_buffer_size c"
  "reads_issued (trace (callback env c e d)) = reads_issued (trace c)"
  by (simp_all add: callback_def basic_defs Let_def split: sum.splits)

lemma on_assign_bandwidth_buffer [simp]:
  "m_recvbuffer (on_assign_bandwidth env c e) = m_recvbuffer c"
  by (simp add: on_assign_bandwidth_def basic_defs Let_def)

lemma issue_read_buffer [simp]:
  "m_recvbuffer (issue_read env c) = m_recvbuffer c"
  by (simp add: issue_read_def basic_defs Let_def)

lemma on_read_deliver_buffer [simp]:
  "m_recvbuffer (on_read_deliver env c) = m_recvbuffer c"
  "m_max_bottled_buffer_size (on_read_deliver env c) = m_max_bottled_buffer_size c"
  "m_bottled c \<Longrightarrow> m_read_pos (on_read_deliver env c) = m_read_pos c"
  by (simp_all add: on_read_deliver_def timer_cancel_def emit_def Let_def)

lemma on_read_deliver_idle:
  "m_bottled c \<Longrightarrow> \<not> finished env (m_parser c) \<Longrightarrow> on_read_deliver env c = c"
  by (simp add: on_read_deliver_def)

lemma callback_suppressed:
  "m_bottled c \<Longrightarrow> m_called c \<Longrightarrow> callback env c e d = c"
  by (simp add: callback_def)

lemma length_resize: "0 \<le> n \<Longrightarrow> int (length (resize n buf)) = n"
  by (simp add: resize_def)

text \<open>The receive buffer after the grow step of \<open>on_read\<close> (lines 696 and 697).\<close>

lemma on_read_tail_grows:
  assumes "int (length (m_recvbuffer c)) = m_read_pos c"
    and "0 \<le> min (m_read_pos c * 2) (m_max_bottled_buffer_size c)"
  shows "m_recvbuffer (on_read_tail env c)
           = resize (min (m_read_pos c * 2) (m_max_bottled_buffer_size c)) (m_recvbuffer c)"
proof -
  have "\<not> min (m_read_pos c * 2) (m_max_bottled_buffer_size c) < 0"
    using assms(2) by linarith
  then have "on_read_tail env c =
      (let c1 = c\<lparr>m_recvbuffer := resize (min (m_read_pos c * 2) (m_max_bottled_buffer_size c))
                                    (m_recvbuffer c)\<rparr>
       in if m_read_pos c1 = m_max_bottled_buffer_size c1 then
            callback env c1 (Some file_too_large) []
          else issue_read env c1)"
    unfolding on_read_tail_def Let_def using assms(1) by (simp only: if_True if_False simp_thms)
  then show ?thesis
    by (simp add: Let_def)
qed

lemma on_read_tail_limit:
  assumes "m_read_pos c = m_max_bottled_buffer_size c" and "0 \<le> m_max_bottled_buffer_size c"
  shows "on_read_tail env c
           = callback env
               (if int (length (m_recvbuffer c)) = m_read_pos c then
                  c\<lparr>m_recvbuffer := resize (min (m_read_pos c * 2) (m_max_bottled_buffer_size c))
                                      (m_recvbuffer c)\<rparr>
                else c)
               (Some file_too_large) []"
proof -
  have "\<not> (int (length (m_recvbuffer c)) = m_read_pos c
           \<and> min (m_read_pos c * 2) (m_max_bottled_buffer_size c) < 0)"
    using assms by linarith
  then show ?thesis
    unfolding on_read_tail_def Let_def using assms(1) by (simp only: if_False) simp
qed

lemma on_read_reaches_tail:
  assumes "\<not> m_abort c"
    and "m_bottled c \<or> \<not> header_finished env (m_parser c)"
    and "incoming env (m_parser c) (take (nat (m_read_pos c + n)) (m_recvbuffer c)) = (parser', False)"
    and "c3 = (charge_quota n c)\<lparr>m_read_pos := m_read_pos c + n, m_parser := parser'\<rparr>"
    and "\<not> redirecting env c3"
  shows "on_read env c None n
           = on_read_tail env
               (on_read_deliver env
                  (if m_redirects c3 \<noteq> 0 \<and> header_finished env (m_parser c3)
                   then c3\<lparr>m_redirects := 0\<rparr> else c3))"
  using assms(5) unfolding assms(4) on_read_to_parsed [OF assms(1,2,3)]
  by (simp add: on_read_parsed_def)

text \<open>
  C9. A read that gets as far as the grow step of \<open>on_read\<close> (line 695), in state \<open>c\<close>
  with a non-negative size limit: when the receive buffer is full (\<open>m_read_pos\<close> equals
  its size) it is resized to the smaller of \<open>2 * m_read_pos\<close> and
  \<open>m_max_bottled_buffer_size\<close>; and when \<open>m_read_pos\<close> equals
  \<open>m_max_bottled_buffer_size\<close>, \<open>on_read\<close> calls \<open>callback(file_too_large)\<close> and issues no
  further read. The handler then receives \<open>file_too_large\<close>, unless the connection is
  bottled and has delivered its response already: in that case the call is suppressed
  and the handler hears nothing more.
\<close>

theorem on_read_grow_and_limit:
  assumes reach: "on_read env c0 e n = on_read_tail env c"
    and cap: "0 \<le> m_max_bottled_buffer_size c" and pos: "0 \<le> m_read_pos c"
  shows "(int (length (m_recvbuffer c)) = m_read_pos c \<longrightarrow>
            m_recvbuffer (on_read env c0 e n)
              = resize (min (m_read_pos c * 2) (m_max_bottled_buffer_size c)) (m_recvbuffer c)
            \<and> int (length (m_recvbuffer (on_read env c0 e n)))
              = min (2 * m_read_pos c) (m_max_bottled_buffer_size c))
       \<and> (m_read_pos c = m_max_bottled_buffer_size c \<longrightarrow>
            reads_issued (trace (on_read env c0 e n)) = reads_issued (trace c)
            \<and> (m_handler c \<and> \<not> (m_bottled c \<and> m_called c) \<longrightarrow>
                 handler_calls (trace (on_read env c0 e n))
                   = handler_calls (trace c) @ [(Some file_too_large, [])])
            \<and> (m_bottled c \<and> m_called c \<longrightarrow>
                 handler_calls (trace (on_read env c0 e n)) = handler_calls (trace c)))"
  unfolding reach
proof (intro conjI impI)
  assume full: "int (length (m_recvbuffer c)) = m_read_pos c"
  have size: "0 \<le> min (m_read_pos c * 2) (m_max_bottled_buffer_size c)"
    using cap pos by simp
  from on_read_tail_grows [OF full size]
  show grown: "m_recvbuffer (on_read_tail env c)
              = resize (min (m_read_pos c * 2) (m_max_bottled_buffer_size c)) (m_recvbuffer c)" .
  show "int (length (m_recvbuffer (on_read_tail env c)))
          = min (2 * m_read_pos c) (m_max_bottled_buffer_size c)"
    using size by (simp only: grown length_resize mult.commute)
next
  assume limit: "m_read_pos c = m_max_bottled_buffer_size c"
  note tail = on_read_tail_limit [OF limit cap]
  show "reads_issued (trace (on_read_tail env c)) = reads_issued (trace c)"
    by (simp add: tail)
  show "handler_calls (trace (on_read_tail env c))
          = handler_calls (trace c) @ [(Some file_too_large, [])]"
    if "m_handler c \<and> \<not> (m_bottled c \<and> m_called c)"
    using that by (simp add: tail callback_no_data)
  show "handler_calls (trace (on_read_tail env c)) = handler_calls (trace c)"
    if "m_bottled c \<and> m_called c"
    using that by (simp add: tail callback_suppressed)
qed

theorem on_read_grow_and_limit_witness:
  "length (m_recvbuffer (step demo_env (demo_reading 8192) (Read_done None demo_full_response)))
     = 8192
   \<and> handler_calls (trace (step demo_env (demo_reading 3) (Read_done None ''Pxy'')))
       = [(Some file_too_large, [])]
   \<and> reads_issued (trace (step demo_env (demo_reading 3) (Read_done None ''Pxy''))) = 1"
proof -
  let ?ga = "socket_write demo_full_response (demo_reading 8192)"
  let ?gb = "(charge_quota 4096 ?ga)\<lparr>m_read_pos := m_read_pos ?ga + 4096,
               m_parser := demo_full_response\<rparr>"
  let ?gc = "on_read_deliver demo_env
              (if m_redirects ?gb \<noteq> 0 \<and> header_finished demo_env (m_parser ?gb)
               then ?gb\<lparr>m_redirects := 0\<rparr> else ?gb)"
  let ?la = "socket_write ''Pxy'' (demo_reading 3)"
  let ?lb = "(charge_quota 3 ?la)\<lparr>m_read_pos := m_read_pos ?la + 3, m_parser := ''Pxy''\<rparr>"
  let ?lc = "on_read_deliver demo_env
              (if m_redirects ?lb \<noteq> 0 \<and> header_finished demo_env (m_parser ?lb)
               then ?lb\<lparr>m_redirects := 0\<rparr> else ?lb)"
  have g0: "\<not> m_abort ?ga" "m_bottled ?ga \<or> \<not> header_finished demo_env (m_parser ?ga)"
    "incoming demo_env (m_parser ?ga) (take (nat (m_read_pos ?ga + 4096)) (m_recvbuffer ?ga))
       = (demo_full_response, False)"
    by (simp_all add: run_defs demo_full_response_def)
  have g3: "\<not> redirecting demo_env ?gb"
    by (simp add: run_defs demo_full_response_def)
  have l0: "\<not> m_abort ?la" "m_bottled ?la \<or> \<not> header_finished demo_env (m_parser ?la)"
    "incoming demo_env (m_parser ?la) (take (nat (m_read_pos ?la + 3)) (m_recvbuffer ?la))
       = (''Pxy'', False)"
    by (simp_all add: run_defs)
  have l3: "\<not> redirecting demo_env ?lb"
    by (simp add: run_defs)
  note g_reach = on_read_reaches_tail [OF g0 refl g3]
  note l_reach = on_read_reaches_tail [OF l0 refl l3]
  have gb: "m_max_bottled_buffer_size ?ga = 8192" "m_read_pos ?ga = 0"
    "length (m_recvbuffer ?ga) = 4096" "m_bottled ?ga"
    by (simp_all add: run_defs demo_full_response_def)
  have g: "0 \<le> m_max_bottled_buffer_size ?gc" "0 \<le> m_read_pos ?gc"
    "int (length (m_recvbuffer ?gc)) = m_read_pos ?gc"
    "min (2 * m_read_pos ?gc) (m_max_bottled_buffer_size ?gc) = 8192"
    by (simp_all add: gb)
  have la: "m_max_bottled_buffer_size ?la = 3" "m_read_pos ?la = 0" "m_bottled ?la"
    "m_handler ?la" "\<not> m_called ?la" "handler_calls (trace ?la) = []"
    "reads_issued (trace ?la) = 1"
    by (simp_all add: run_defs)
  have unfinished: "\<not> finished demo_env ''Pxy''"
    by (simp add: demo_defs)
  have l: "0 \<le> m_max_bottled_buffer_size ?lc" "0 \<le> m_read_pos ?lc"
    "m_read_pos ?lc = m_max_bottled_buffer_size ?lc"
    "m_handler ?lc \<and> \<not> (m_bottled ?lc \<and> m_called ?lc)"
    by (simp_all add: on_read_deliver_idle la unfinished)
  have before: "handler_calls (trace ?lc) = []" "reads_issued (trace ?lc) = 1"
    by (simp_all add: on_read_deliver_idle la unfinished)
  have steps: "step demo_env (demo_reading 8192) (Read_done None demo_full_response)
                 = on_read demo_env ?ga None 4096"
    "step demo_env (demo_reading 3) (Read_done None ''Pxy'') = on_read demo_env ?la None 3"
    by (simp_all add: demo_full_response_def)
  from on_read_grow_and_limit [OF g_reach g(1,2)] g(3)
  have "int (length (m_recvbuffer (on_read demo_env ?ga None 4096)))
          = min (2 * m_read_pos ?gc) (m_max_bottled_buffer_size ?gc)"
    by blast
  then have "int (length (m_recvbuffer (on_read demo_env ?ga None 4096))) = 8192"
    by (simp only: g(4))
  then have "length (m_recvbuffer (on_read demo_env ?ga None 4096)) = 8192"
    by linarith
  moreover
  from on_read_grow_and_limit [OF l_reach l(1,2)] l(3,4)
  have "reads_issued (trace (on_read demo_env ?la None 3)) = reads_issued (trace ?lc)
        \<and> handler_calls (trace (on_read demo_env ?la None 3))
            = handler_calls (trace ?lc) @ [(Some file_too_large, [])]"
    by blast
  then have "reads_issued (trace (on_read demo_env ?la None 3)) = 1
        \<and> handler_calls (trace (on_read demo_env ?la None 3)) = [(Some file_too_large, [])]"
    by (simp only: before append_Nil)
  ultimately show ?thesis
    by (simp only: steps)
qed

text \<open>
  A bottled response of exactly \<open>m_max_bottled_buffer_size\<close> bytes that is complete:
  \<open>m_read_pos\<close> reaches the limit, the handler receives the body without an error, and
  \<open>file_too_large\<close> is not delivered.
\<close>

theorem file_too_large_suppressed_counterexample:
  "m_read_pos (step demo_env (demo_reading 4096) (Read_done None demo_full_response))
     = m_max_bottled_buffer_size (demo_reading 4096)
   \<and> handler_calls (trace (step demo_env (demo_reading 4096) (Read_done None demo_full_response)))
       = [(None, replicate 4095 (CHR ''x''))]"
  by (simp add: run_defs demo_full_response_def)


subsection \<open>Deliveries to the handler\<close>

text \<open>
  The return of \<open>callback\<close> on an inflate error (lines 522 to 526) hands the error to the
  handler and leaves \<open>m_called\<close> as it was, so the next \<open>callback\<close> is not stopped by
  the gate of line 509.
\<close>

lemma callback_inflate_error:
  assumes "m_bottled c" and "\<not> m_called c" and "m_handler c" and "data \<noteq> []"
    and "header_finished env (m_parser c)"
    and "header env (m_parser c) ''content-encoding'' = ''gzip''"
    and "inflate_gzip env (collapse_chunk_headers env (m_parser c) data)
           (m_max_bottled_buffer_size c) = Inl ec"
  shows "callback env c e data
           = emit (Handler (Some ec) (collapse_chunk_headers env (m_parser c) data)) c"
    and "\<not> m_called (callback env c e data)"
    and "handler_calls (trace (callback env (callback env c e data) e' data))
           = handler_calls (trace c)
               @ [(Some ec, collapse_chunk_headers env (m_parser c) data),
                  (Some ec, collapse_chunk_headers env (m_parser c) data)]"
  using assms by (simp_all add: callback_def invoke_handler_def emit_def Let_def)

text \<open>
  C1. In bottled mode the handler is to be invoked exactly once for a \<open>get\<close>. In the
  run below the response is complete, carries \<open>Content-Encoding: gzip\<close> and a body that
  does not inflate, and the server then closes the connection. \<open>callback\<close> hands the
  inflate error to the handler without setting \<open>m_called\<close>; \<open>on_read\<close> goes on to the
  next read; at the end of the stream \<open>callback\<close> runs again and the handler is invoked
  a second time.
\<close>

theorem bottled_handler_invoked_twice:
  "m_bottled (demo_reading 4096)
   \<and> handler_calls (trace (demo_reading 4096)) = []
   \<and> handler_calls (trace (run demo_env (demo_reading 4096) [Read_done None ''Gzap'']))
       = [(Some (other_error 2), ''zap'')]
   \<and> \<not> m_called (run demo_env (demo_reading 4096) [Read_done None ''Gzap''])
   \<and> handler_calls
         (trace (run demo_env (demo_reading 4096) [Read_done None ''Gzap'', Read_done (Some eof) []]))
       = [(Some (other_error 2), ''zap''), (Some (other_error 2), ''zap'')]"
  by (simp add: run_defs)

text \<open>
  C2. Every execution that \<open>get\<close> starts is to end in a call of the handler unless the
  owner closes the connection. In the first run below the installed endpoint filter
  removes every endpoint: \<open>on_resolve\<close> calls \<open>close\<close> and returns (lines 398 to 402),
  the handler is dropped without having been invoked, and the deadline timer that
  fires later finds the connection aborted. In the second run the list is emptied by
  the address family of the bind address instead, and there \<open>on_resolve\<close> does report
  \<open>address_family_not_supported\<close> before it closes (lines 414 to 419).
\<close>

theorem filtered_endpoints_close_silently:
  "handler_calls (trace (run demo_env demo_filtered
      [demo_get ''http://example.org/a'', Resolved None [V4 1, V4 2]])) = []
   \<and> m_abort (run demo_env demo_filtered
        [demo_get ''http://example.org/a'', Resolved None [V4 1, V4 2]])
   \<and> \<not> m_handler (run demo_env demo_filtered
        [demo_get ''http://example.org/a'', Resolved None [V4 1, V4 2]])
   \<and> handler_calls (trace (run demo_env demo_filtered
        [demo_get ''http://example.org/a'', Resolved None [V4 1, V4 2], Tick (seconds 20),
         Timer_fired None])) = []
   \<and> handler_calls (trace (run demo_env (demo_bottled 4096)
        [Call_get ''http://example.org/a'' (seconds 10) 0 None 5 ''agent'' (Some (V6 1)) 0 [],
         Resolved None [V4 1, V4 2]])) = [(Some address_family_not_supported, [])]"
  by (simp add: run_defs)

subsection \<open>The download quota\<close>

text \<open>
  C7. With a rate limit set, the download quota is to be non-negative after \<open>on_read\<close>
  has charged a read to it (the assertion of line 586). In the run below the first
  read is issued while no rate limit is set, for the whole buffer (lines 557 to 572);
  the owner then calls \<open>rate_limit(1000)\<close>; the read completes with two bytes, and
  \<open>on_read\<close> charges them to a quota of 0.
\<close>

theorem quota_negative_after_rate_limit:
  "last (trace (demo_reading 4096)) = Async_read_some 0 4096
   \<and> m_rate_limit (demo_reading 4096) = 0
   \<and> m_download_quota (demo_reading 4096) = 0
   \<and> m_rate_limit (run demo_env (demo_reading 4096) [Call_rate_limit 1000, Read_done None ''Px''])
       = 1000
   \<and> m_download_quota
         (run demo_env (demo_reading 4096) [Call_rate_limit 1000, Read_done None ''Px'']) = - 2"
  by (simp add: run_defs)

end
